theory Spec2Isabelle
  imports Main
begin

section \<open>odfdr-installer: a shallow embedding of main.go\<close>

text \<open>
  The program is a straight line of calls to the outside world: it looks commands up in
  the path, creates a temporary file, writes files, runs \<^verbatim>\<open>oc\<close> and \<^verbatim>\<open>jq\<close>, prints and
  logs. Every function of main.go is embedded as a HOL function that takes the answers
  of the outside world (a \<open>world\<close>) and returns the list of calls it made, in order,
  together with its Go result.
\<close>

subsection \<open>Strings\<close>

text \<open>
  \<^verbatim>\<open>strings.Split(s, sep)\<close> for a separator of one byte: the substrings between the
  separators, one more than there are separators, so never an empty slice.
\<close>

fun split :: "char \<Rightarrow> string \<Rightarrow> string list" where
  "split sep [] = [[]]"
| "split sep (c # cs) =
     (if c = sep then [] # split sep cs
      else (case split sep cs of [] \<Rightarrow> [[c]] | p # ps \<Rightarrow> (c # p) # ps))"

text \<open>\<^verbatim>\<open>strings.Join\<close>, used only to say what \<open>split\<close> computes.\<close>

fun join :: "char \<Rightarrow> string list \<Rightarrow> string" where
  "join sep [] = []"
| "join sep [p] = p"
| "join sep (p # q # ps) = p @ sep # join sep (q # ps)"

subsection \<open>Errors\<close>

text \<open>One constructor for each \<^verbatim>\<open>fmt.Errorf\<close> of main.go, named after its message.\<close>

datatype error =
    NotInstalled string
  | CouldNotParseClusterName
  | CreateTempFailed
  | ErrorLoggingIntoOpenShift
  | ErrorWritingCatalogSource
  | ErrorApplyingCatalogSource
  | ErrorWritingICSP
  | ErrorApplyingICSP
  | ErrorGettingPullSecret
  | ErrorWritingPullSecret
  | ErrorParsingPullSecretJSON
  | InvalidPullSecretFormat
  | PullSecretDoesNotContainAuths
  | ErrorLoggingIntoRegistry
  | ErrorMergingPullSecrets
  | ErrorWritingMergedPullSecret
  | ErrorUpdatingPullSecret
  | ErrorParsingNewPullSecretJSON
  | InvalidNewPullSecretFormat
  | UnexpectedNumberOfElements

subsection \<open>JSON documents and Go maps\<close>

text \<open>
  A JSON value. An object keeps its members in the order of the text, duplicates
  included. \<^verbatim>\<open>json.Unmarshal\<close> into \<^verbatim>\<open>map[string]any\<close> turns an object into a Go map
  in which the last member of a name wins, and \<^verbatim>\<open>null\<close> into the \<^verbatim>\<open>nil\<close> interface
  value: \<open>JNull\<close> stands for both. A number is kept as the mantissa and the decimal
  exponent of its literal: \<open>JNumber m e\<close> is \<open>m \<times> 10\<^sup>e\<close>, so \<^verbatim>\<open>1e999\<close> is
  \<open>JNumber 1 999\<close> and \<^verbatim>\<open>-12.5\<close> is \<open>JNumber (- 125) (- 1)\<close>.
\<close>

datatype json =
    JNull
  | JBool bool
  | JNumber int int
  | JString string
  | JArray "json list"
  | JObject "(string \<times> json) list"

text \<open>
  A byte string, as far as \<^verbatim>\<open>json.Unmarshal\<close> can tell: text that the scanner of
  \<^verbatim>\<open>encoding/json\<close> rejects (\<^verbatim>\<open>json.Valid\<close> is false), or text that it accepts and the
  value the text denotes.
\<close>

datatype bytes = NotJSON string | JSONText json

text \<open>
  Decoding into \<^verbatim>\<open>any\<close> converts every number with \<^verbatim>\<open>strconv.ParseFloat(s, 64)\<close>,
  which fails when the number does not fit a \<^verbatim>\<open>float64\<close>: when its magnitude is at
  least \<open>2\<^sup>1\<^sup>0\<^sup>2\<^sup>4 - 2\<^sup>9\<^sup>7\<^sup>0\<close>, half a unit in the last place above the largest
  \<^verbatim>\<open>float64\<close>. The decoder goes on and \<^verbatim>\<open>json.Unmarshal\<close> returns the error at the
  end, wherever in the document the number is, also under a member that a later
  member of the same name replaces.
\<close>

definition outOfRange :: "int \<Rightarrow> int \<Rightarrow> bool" where
  "outOfRange m e =
     (if 0 \<le> e then 2 ^ 1024 - 2 ^ 970 \<le> \<bar>m\<bar> * 10 ^ nat e
      else (2 ^ 1024 - 2 ^ 970) * 10 ^ nat (- e) \<le> \<bar>m\<bar>)"

primrec inRange :: "json \<Rightarrow> bool" where
  "inRange JNull = True"
| "inRange (JBool b) = True"
| "inRange (JNumber m e) = (\<not> outOfRange m e)"
| "inRange (JString s) = True"
| "inRange (JArray vs) = list_all id (map inRange vs)"
| "inRange (JObject kvs) = list_all snd (map (map_prod id inRange) kvs)"

text \<open>
  The scanner counts the arrays and objects that are open, and gives up with a syntax
  error (\<^verbatim>\<open>exceeded max depth\<close>) when there are more than 10000 of them.
\<close>

primrec depth :: "json \<Rightarrow> nat" where
  "depth JNull = 0"
| "depth (JBool b) = 0"
| "depth (JNumber m e) = 0"
| "depth (JString s) = 0"
| "depth (JArray vs) = Suc (foldr max (map depth vs) 0)"
| "depth (JObject kvs) = Suc (foldr max (map snd (map (map_prod id depth) kvs)) 0)"

definition decodes :: "json \<Rightarrow> bool" where
  "decodes v = (depth v \<le> 10000 \<and> inRange v)"

text \<open>
  \<^verbatim>\<open>json.Unmarshal(data, &m)\<close> for \<^verbatim>\<open>var m map[string]any\<close>: a syntax error for text
  that the scanner rejects, a type error for a value that is neither an object nor
  \<^verbatim>\<open>null\<close> and for an object that holds a number out of range; \<^verbatim>\<open>null\<close> leaves \<open>m\<close>
  the nil map and is no error.
\<close>

fun unmarshal :: "bytes \<Rightarrow> (string \<times> json) list option" where
  "unmarshal (NotJSON _) = None"
| "unmarshal (JSONText (JObject kvs)) = (if decodes (JObject kvs) then Some kvs else None)"
| "unmarshal (JSONText JNull) = Some []"
| "unmarshal (JSONText _) = None"

text \<open>\<^verbatim>\<open>m[k]\<close>: the value of the last member named \<open>k\<close>, \<^verbatim>\<open>nil\<close> when there is none.\<close>

definition index :: "(string \<times> json) list \<Rightarrow> string \<Rightarrow> json" where
  "index m k = (case map_of (rev m) k of None \<Rightarrow> JNull | Some v \<Rightarrow> v)"

text \<open>\<^verbatim>\<open>len(m)\<close>: the number of distinct keys.\<close>

definition len :: "(string \<times> json) list \<Rightarrow> nat" where
  "len m = length (remdups (map fst m))"

text \<open>The type assertion \<^verbatim>\<open>v.(map[string]any)\<close> with its \<^verbatim>\<open>ok\<close> result.\<close>

fun assertMap :: "json \<Rightarrow> (string \<times> json) list option" where
  "assertMap (JObject kvs) = Some kvs"
| "assertMap _ = None"

subsection \<open>The outside world\<close>

text \<open>
  What the program does to the outside world, in the order it does it. \<open>Exec\<close> is
  \<^verbatim>\<open>exec.Command(name, args...)\<close> run with the listed additions to the environment;
  \<open>Println\<close> writes a line to standard output; \<open>Slog\<close> is a record of the default
  \<^verbatim>\<open>slog\<close> logger (its attributes are left out). \<open>Stderr\<close> is a line that the
  \<^verbatim>\<open>flag\<close> package writes to standard error, and \<open>FlagUsage\<close> is its usage message
  (\<^verbatim>\<open>flag.Usage\<close>: the list of the defined flags), written to standard error too.
\<close>

datatype level = LevelInfo | LevelError

datatype event =
    LookPath string
  | CreateTemp string string
  | Exec string "string list" "string list"
  | WriteFile string bytes
  | Println string
  | Slog level string
  | Stderr string
  | FlagUsage

text \<open>
  What the outside world answers. Each call site of main.go runs at most once in a
  run, so one answer for each is as general as an answer that depends on the history:
  \<^item> \<open>lookPath\<close>: whether \<^verbatim>\<open>exec.LookPath\<close> finds the command;
  \<^item> \<open>tempDir\<close>: \<^verbatim>\<open>os.TempDir()\<close>; \<open>workDir\<close>: the current working directory;
  \<^item> \<open>nextRandom\<close>: the random string \<^verbatim>\<open>os.CreateTemp\<close> puts for the \<^verbatim>\<open>*\<close>, \<open>None\<close>
    when the file cannot be created;
  \<^item> \<open>writeFile\<close>: whether \<^verbatim>\<open>os.WriteFile\<close> of that name succeeds;
  \<^item> \<open>ocLogin\<close>, \<open>ocRegistryLogin\<close>, \<open>ocSetData\<close>, \<open>ocApply\<close> (by file name): whether
    the command exits with status 0;
  \<^item> \<open>ocGetPullSecret\<close>, \<open>jqMerge\<close>, \<open>ocGetPullSecretAgain\<close>: the standard output of
    the command, \<open>None\<close> when it fails.
\<close>

record world =
  lookPath :: "string \<Rightarrow> bool"
  tempDir :: string
  workDir :: string
  nextRandom :: "string option"
  writeFile :: "string \<Rightarrow> bool"
  ocLogin :: bool
  ocGetPullSecret :: "bytes option"
  ocRegistryLogin :: bool
  jqMerge :: "bytes option"
  ocSetData :: bool
  ocGetPullSecretAgain :: "bytes option"
  ocApply :: "string \<Rightarrow> bool"

subsection \<open>checkCommandExists, checkRequiredCommands\<close>

definition checkCommandExists :: "world \<Rightarrow> string \<Rightarrow> event list \<times> error option" where
  "checkCommandExists w command =
     ([LookPath command],
      if lookPath w command then None else Some (NotInstalled command))"

text \<open>The loop over \<^verbatim>\<open>requiredCommands\<close>: it returns at the first missing command.\<close>

fun checkCommands :: "world \<Rightarrow> string list \<Rightarrow> event list \<times> error option" where
  "checkCommands w [] = ([], None)"
| "checkCommands w (cmd # cmds) =
     (case checkCommandExists w cmd of
        (t, Some err) \<Rightarrow> (t, Some err)
      | (t, None) \<Rightarrow> (case checkCommands w cmds of (t', r) \<Rightarrow> (t @ t', r)))"

definition checkRequiredCommands :: "world \<Rightarrow> event list \<times> error option" where
  "checkRequiredCommands w = checkCommands w [''jq'', ''oc'']"

subsection \<open>getClusterName\<close>

definition getClusterName :: "string \<Rightarrow> error + string" where
  "getClusterName url =
     (let parts = split CHR ''.'' url
      in if length parts < 2 then Inl CouldNotParseClusterName
         else Inr (parts ! 1))"

subsection \<open>getKubeconfig\<close>

text \<open>
  \<^verbatim>\<open>os.CreateTemp(dir, pattern)\<close>, after the Go library: a pattern with a path
  separator is an error; the file is created in \<open>dir\<close>, or in \<^verbatim>\<open>os.TempDir()\<close> when
  \<open>dir\<close> is the empty string; its name is the pattern with the last \<^verbatim>\<open>*\<close> replaced by
  a random string (appended when there is no \<^verbatim>\<open>*\<close>).
\<close>

definition joinPath :: "string \<Rightarrow> string \<Rightarrow> string" where
  "joinPath dir name =
     (if dir \<noteq> [] \<and> last dir = CHR ''/'' then dir @ name else dir @ ''/'' @ name)"

definition prefixAndSuffix :: "string \<Rightarrow> (string \<times> string) option" where
  "prefixAndSuffix pattern =
     (if CHR ''/'' \<in> set pattern then None
      else if CHR ''*'' \<in> set pattern
      then Some (rev (tl (dropWhile (\<lambda>c. c \<noteq> CHR ''*'') (rev pattern))),
                 rev (takeWhile (\<lambda>c. c \<noteq> CHR ''*'') (rev pattern)))
      else Some (pattern, []))"

definition os_CreateTemp :: "world \<Rightarrow> string \<Rightarrow> string \<Rightarrow> string option" where
  "os_CreateTemp w dir pattern =
     (case prefixAndSuffix pattern of
        None \<Rightarrow> None
      | Some (prefix, suffix) \<Rightarrow>
          (case nextRandom w of
             None \<Rightarrow> None
           | Some r \<Rightarrow>
               Some (joinPath (if dir = [] then tempDir w else dir) prefix @ r @ suffix)))"

text \<open>The result is the name of the file (\<^verbatim>\<open>kconfig.Name()\<close> in main).\<close>

definition getKubeconfig :: "world \<Rightarrow> string \<Rightarrow> event list \<times> (error + string)" where
  "getKubeconfig w cluster =
     ([CreateTemp [] (cluster @ ''-kubeconfig'' @ ''-*'')],
      case os_CreateTemp w [] (cluster @ ''-kubeconfig'' @ ''-*'') of
        None \<Rightarrow> Inl CreateTempFailed
      | Some kconfig \<Rightarrow> Inr kconfig)"

subsection \<open>login\<close>

definition login ::
  "world \<Rightarrow> string \<Rightarrow> string \<Rightarrow> string \<Rightarrow> string \<Rightarrow> event list \<times> error option" where
  "login w url username password kconfig =
     ([Slog LevelInfo ''logging in using kubeconfig'',
       Exec ''oc'' [''login'', url, ''-u'', username, ''-p'', password]
         [''KUBECONFIG='' @ kconfig]],
      if ocLogin w then None else Some ErrorLoggingIntoOpenShift)"

subsection \<open>showUsage, showUsageAndExit\<close>

definition showUsage :: "event list" where
  "showUsage =
     [Println ''Usage: ./odfdr-installer -url <URL> -username <username> -password <password> -rhceph-password <password>'',
      Println ''Example: ./odfdr-installer -url ./odfdr-installer -url api.cluster.example.com:6443 -password abc -rhceph-password=xyz'']"

text \<open>The process ends here: the result is what was printed and the exit status.\<close>

definition showUsageAndExit :: "event list \<times> nat" where
  "showUsageAndExit = (showUsage, 1)"

subsection \<open>addCatalogSource, addICSP\<close>

text \<open>
  The two embedded manifests, icsp.yaml and odf-catalogsource.yaml, are parameters:
  their bytes are written out as they are.
\<close>

definition addCatalogSource ::
  "world \<Rightarrow> string \<Rightarrow> string \<Rightarrow> bytes \<Rightarrow> event list \<times> error option" where
  "addCatalogSource w clusterName kconfig catalogSourceYAML =
     (let catalogSourceFileName = clusterName @ ''-catalogsource.yaml'';
          t1 = [WriteFile catalogSourceFileName catalogSourceYAML]
      in if \<not> writeFile w catalogSourceFileName then (t1, Some ErrorWritingCatalogSource)
         else
           let t2 = t1 @ [Exec ''oc'' [''apply'', ''-f'', catalogSourceFileName]
                            [''KUBECONFIG='' @ kconfig]]
           in if \<not> ocApply w catalogSourceFileName
              then (t2, Some ErrorApplyingCatalogSource)
              else (t2, None))"

definition addICSP ::
  "bytes \<Rightarrow> world \<Rightarrow> string \<Rightarrow> string \<Rightarrow> event list \<times> error option" where
  "addICSP icspYAML w clusterName kconfig =
     (let icspFileName = clusterName @ ''-icsp.yaml'';
          t1 = [WriteFile icspFileName icspYAML]
      in if \<not> writeFile w icspFileName then (t1, Some ErrorWritingICSP)
         else
           let t2 = t1 @ [Exec ''oc'' [''apply'', ''-f'', icspFileName]
                            [''KUBECONFIG='' @ kconfig]]
           in if \<not> ocApply w icspFileName
              then (t2, Some ErrorApplyingICSP)
              else (t2, None))"

subsection \<open>addRHCEPHAuth\<close>

definition getPullSecretCmd :: "string \<Rightarrow> event" where
  \<open>getPullSecretCmd kconfig =
     Exec ''oc''
       [''get'', ''secret/pull-secret'', ''-n'', ''openshift-config'',
        ''--template={{index .data ".dockerconfigjson" | base64decode}}'']
       [''KUBECONFIG='' @ kconfig]\<close>

definition registryLoginCmd :: "string \<Rightarrow> string \<Rightarrow> string \<Rightarrow> event" where
  "registryLoginCmd rhcephPassword appendFileName kconfig =
     Exec ''oc''
       [''registry'', ''login'', ''--registry=quay.io/rhceph-dev'',
        ''--auth-basic='' @ rhcephPassword, ''--to='' @ appendFileName]
       [''KUBECONFIG='' @ kconfig]"

definition mergeCmd :: "string \<Rightarrow> string \<Rightarrow> event" where
  "mergeCmd pullSecretFileName appendFileName =
     Exec ''jq'' [''-s'', ''.[0] * .[1]'', pullSecretFileName, appendFileName] []"

definition updateCmd :: "string \<Rightarrow> string \<Rightarrow> event" where
  "updateCmd newPullSecretFileName kconfig =
     Exec ''oc''
       [''set'', ''data'', ''secret/pull-secret'', ''-n'', ''openshift-config'',
        ''--from-file=.dockerconfigjson='' @ newPullSecretFileName]
       [''KUBECONFIG='' @ kconfig]"

text \<open>
  The function returns \<^verbatim>\<open>nil\<close> (\<open>None\<close>) or an error. The second
  \<^verbatim>\<open>oc get\<close> assigns \<^verbatim>\<open>pullSecretOutput\<close> again, and nothing reads it afterwards:
  \<^verbatim>\<open>newPullSecret\<close> is unmarshalled from \<^verbatim>\<open>mergedOutput\<close>.
\<close>

definition addRHCEPHAuth ::
  "world \<Rightarrow> string \<Rightarrow> string \<Rightarrow> string \<Rightarrow> event list \<times> error option" where
  "addRHCEPHAuth w clusterName kconfig rhcephPassword =
     (let t1 = [getPullSecretCmd kconfig] in
      case ocGetPullSecret w of
        None \<Rightarrow> (t1, Some ErrorGettingPullSecret)
      | Some pullSecretOutput \<Rightarrow> (
      let pullSecretFileName = clusterName @ ''-pull-secret.json'';
          t2 = t1 @ [WriteFile pullSecretFileName pullSecretOutput] in
      if \<not> writeFile w pullSecretFileName then (t2, Some ErrorWritingPullSecret) else
      case unmarshal pullSecretOutput of
        None \<Rightarrow> (t2, Some ErrorParsingPullSecretJSON)
      | Some pullSecret \<Rightarrow> (
      case assertMap (index pullSecret ''auths'') of
        None \<Rightarrow> (t2, Some InvalidPullSecretFormat)
      | Some auths \<Rightarrow> (
      let elementsCount = len auths in
      if index pullSecret ''auths'' = JNull then (t2, Some PullSecretDoesNotContainAuths) else
      if index auths ''quay.io/rhceph-dev'' \<noteq> JNull
      then (t2 @ [Slog LevelInfo ''RHCEPH auth already exists in pull secret''], None) else
      let appendFileName = clusterName @ ''-append-pull-secret.json'';
          t3 = t2 @ [registryLoginCmd rhcephPassword appendFileName kconfig] in
      if \<not> ocRegistryLogin w then (t3, Some ErrorLoggingIntoRegistry) else
      let newPullSecretFileName = clusterName @ ''-new-pull-secret.json'';
          t4 = t3 @ [mergeCmd pullSecretFileName appendFileName] in
      case jqMerge w of
        None \<Rightarrow> (t4, Some ErrorMergingPullSecrets)
      | Some mergedOutput \<Rightarrow> (
      let t5 = t4 @ [WriteFile newPullSecretFileName mergedOutput] in
      if \<not> writeFile w newPullSecretFileName then (t5, Some ErrorWritingMergedPullSecret) else
      let t6 = t5 @ [updateCmd newPullSecretFileName kconfig] in
      if \<not> ocSetData w then (t6, Some ErrorUpdatingPullSecret) else
      let t7 = t6 @ [getPullSecretCmd kconfig] in
      case ocGetPullSecretAgain w of
        None \<Rightarrow> (t7, Some ErrorGettingPullSecret)
      | Some pullSecretOutput' \<Rightarrow> (
      case unmarshal mergedOutput of
        None \<Rightarrow> (t7, Some ErrorParsingNewPullSecretJSON)
      | Some newPullSecret \<Rightarrow> (
      case assertMap (index newPullSecret ''auths'') of
        None \<Rightarrow> (t7, Some InvalidNewPullSecretFormat)
      | Some newAuths \<Rightarrow> (
      let newElementsCount = len newAuths in
      if newElementsCount \<noteq> elementsCount + 1
      then (t7, Some UnexpectedNumberOfElements)
      else (t7, None)))))))))"

subsection \<open>main\<close>

text \<open>
  \<^verbatim>\<open>flag.Parse()\<close> on the command line \<^verbatim>\<open>os.Args[1:]\<close>, for flags that are all string
  flags, after \<^verbatim>\<open>parseOne\<close> of the \<^verbatim>\<open>flag\<close> package. One or two minus signs start a
  flag; its value follows an equals sign or is the next argument; the first argument
  that is not a flag, or \<^verbatim>\<open>--\<close>, ends the parsing. The command line of the program
  has the error handling \<^verbatim>\<open>ExitOnError\<close>: \<^verbatim>\<open>-h\<close> and \<^verbatim>\<open>-help\<close> print the usage
  message and the process exits with status 0; a flag that is not defined, has no
  value or is malformed prints the error and the usage message, and the process exits
  with status 2 (main.go imports \<^verbatim>\<open>log/slog\<close>, so the library is that of Go 1.21
  or later, where \<^verbatim>\<open>-h\<close> exits with status 0). The result is that exit, or the flags
  that were set with their last values.
\<close>

definition nameValue :: "string \<Rightarrow> string \<times> string option" where
  "nameValue name =
     (case name of
        [] \<Rightarrow> ([], None)
      | c # cs \<Rightarrow>
          if CHR ''='' \<in> set cs
          then (c # takeWhile (\<lambda>x. x \<noteq> CHR ''='') cs,
                Some (tl (dropWhile (\<lambda>x. x \<noteq> CHR ''='') cs)))
          else (name, None))"

text \<open>
  The results of \<^verbatim>\<open>parseOne\<close>: \<^verbatim>\<open>(true, nil)\<close> with the flags that are set and the
  arguments that are left; \<^verbatim>\<open>(false, nil)\<close>; \<^verbatim>\<open>(false, ErrHelp)\<close>, after the usage
  message is printed; \<^verbatim>\<open>(false, f.failf(...))\<close>, after the error and the usage message
  are printed.
\<close>

datatype parseResult =
    Seen "string \<rightharpoonup> string" "string list"
  | NotSeen
  | ErrHelp
  | Failf string

definition parseOne ::
  "string list \<Rightarrow> (string \<rightharpoonup> string) \<Rightarrow> string list \<Rightarrow> parseResult" where
  "parseOne formal actual args =
     (case args of
        [] \<Rightarrow> NotSeen
      | s # rest \<Rightarrow>
          if length s < 2 \<or> hd s \<noteq> CHR ''-'' then NotSeen
          else if s = ''--'' then NotSeen
          else
            let name = (if s ! 1 = CHR ''-'' then drop 2 s else drop 1 s) in
            if name = [] \<or> hd name = CHR ''-'' \<or> hd name = CHR ''=''
            then Failf (''bad flag syntax: '' @ s)
            else
              let name' = fst (nameValue name); hasValue = snd (nameValue name) in
              if name' \<notin> set formal
              then (if name' = ''help'' \<or> name' = ''h'' then ErrHelp
                    else Failf (''flag provided but not defined: -'' @ name'))
              else (case hasValue of
                      Some v \<Rightarrow> Seen (actual(name' \<mapsto> v)) rest
                    | None \<Rightarrow>
                        (case rest of
                           [] \<Rightarrow> Failf (''flag needs an argument: -'' @ name')
                         | v # rest' \<Rightarrow> Seen (actual(name' \<mapsto> v)) rest')))"

text \<open>
  The loop of \<^verbatim>\<open>Parse\<close> with the error handling \<^verbatim>\<open>ExitOnError\<close>: \<^verbatim>\<open>os.Exit(0)\<close>
  for \<^verbatim>\<open>ErrHelp\<close>, \<^verbatim>\<open>os.Exit(2)\<close> for any other error. Each flag that is seen
  takes one or two arguments off the command line, so the loop ends.
\<close>

function flagParse ::
  "string list \<Rightarrow> (string \<rightharpoonup> string) \<Rightarrow> string list
     \<Rightarrow> event list \<times> nat + (string \<rightharpoonup> string)" where
  "flagParse formal actual args =
     (case parseOne formal actual args of
        Seen actual' args' \<Rightarrow> flagParse formal actual' args'
      | NotSeen \<Rightarrow> Inr actual
      | ErrHelp \<Rightarrow> Inl ([FlagUsage], 0)
      | Failf msg \<Rightarrow> Inl ([Stderr msg, FlagUsage], 2))"
  by pat_completeness auto

termination
proof (relation "measure (\<lambda>(formal, actual, args). length args)")
  show "wf (measure (\<lambda>(formal, actual, args). length args))"
    by simp
next
  fix formal :: "string list" and actual actual' :: "string \<rightharpoonup> string"
    and args args' :: "string list"
  assume seen: "parseOne formal actual args = Seen actual' args'"
  have "case parseOne formal actual args of
          Seen a r \<Rightarrow> length r < length args | _ \<Rightarrow> True"
    by (simp add: parseOne_def Let_def split: list.split option.split)
  with seen have "length args' < length args"
    by simp
  then show "((formal, actual', args'), (formal, actual, args))
      \<in> measure (\<lambda>(formal, actual, args). length args)"
    by simp
qed

declare flagParse.simps [simp del]

text \<open>
  \<^verbatim>\<open>flag.String(name, value, usage)\<close> after \<^verbatim>\<open>flag.Parse()\<close> has returned: the value
  given on the command line, or the default.
\<close>

definition flagString :: "(string \<rightharpoonup> string) \<Rightarrow> string \<Rightarrow> string \<Rightarrow> string" where
  "flagString flags name value = (case flags name of None \<Rightarrow> value | Some v \<Rightarrow> v)"

text \<open>The four flags that \<open>main\<close> defines with \<^verbatim>\<open>flag.String\<close> before it parses.\<close>

abbreviation definedFlags :: "string list" where
  "definedFlags \<equiv> [''url'', ''username'', ''password'', ''rhceph-password'']"

text \<open>
  The result is the trace and the exit status: that of \<^verbatim>\<open>flag.Parse\<close> when it ends
  the process, 1 at each \<^verbatim>\<open>os.Exit(1)\<close>, 0 when \<open>main\<close> returns.
\<close>

definition main :: "bytes \<Rightarrow> bytes \<Rightarrow> world \<Rightarrow> string list \<Rightarrow> event list \<times> nat" where
  "main icspYAML odfCatalogSourceYAML w arguments =
     (case flagParse definedFlags Map.empty arguments of
        Inl exit \<Rightarrow> exit
      | Inr flags \<Rightarrow> (
      let urlFlag = flagString flags ''url'' [];
          usernameFlag = flagString flags ''username'' ''kubeadmin'';
          passwordFlag = flagString flags ''password'' [];
          rhcephPasswordFlag = flagString flags ''rhceph-password'' [] in
      if urlFlag = []
      then ([Slog LevelError ''error: URL is required''] @ fst showUsageAndExit,
            snd showUsageAndExit) else
      if passwordFlag = []
      then ([Slog LevelError ''error: password is required''] @ fst showUsageAndExit,
            snd showUsageAndExit) else
      if rhcephPasswordFlag = []
      then ([Slog LevelError ''error: RHCEPH password is required''] @ fst showUsageAndExit,
            snd showUsageAndExit) else
      let url = urlFlag; username = usernameFlag; password = passwordFlag;
          rhcephPassword = rhcephPasswordFlag in
      case checkRequiredCommands w of
        (t0, Some err) \<Rightarrow> (t0 @ [Slog LevelError ''error checking required commands''], 1)
      | (t0, None) \<Rightarrow> (
      case getClusterName url of
        Inl err \<Rightarrow> (t0 @ [Slog LevelError ''error getting cluster name''], 1)
      | Inr clusterName \<Rightarrow> (
      case getKubeconfig w clusterName of
        (t1, Inl err) \<Rightarrow> (t0 @ t1 @ [Slog LevelError ''error creating kubeconfig file''], 1)
      | (t1, Inr kconfig) \<Rightarrow> (
      case login w url username password kconfig of
        (t2, Some err) \<Rightarrow>
          (t0 @ t1 @ t2 @ [Slog LevelError ''error logging into OpenShift''], 1)
      | (t2, None) \<Rightarrow> (
      case addRHCEPHAuth w clusterName kconfig rhcephPassword of
        (t3, Some err) \<Rightarrow>
          (t0 @ t1 @ t2 @ t3 @ [Slog LevelError ''error adding RHCEPH auth to pull secret''], 1)
      | (t3, None) \<Rightarrow> (
      case addICSP icspYAML w clusterName kconfig of
        (t4, Some err) \<Rightarrow>
          (t0 @ t1 @ t2 @ t3 @ t4 @ [Slog LevelError ''error adding ICSP''], 1)
      | (t4, None) \<Rightarrow> (
      case addCatalogSource w clusterName kconfig odfCatalogSourceYAML of
        (t5, Some err) \<Rightarrow>
          (t0 @ t1 @ t2 @ t3 @ t4 @ t5 @ [Slog LevelError ''error adding CatalogSource''], 1)
      | (t5, None) \<Rightarrow> (t0 @ t1 @ t2 @ t3 @ t4 @ t5, 0)))))))))"

subsection \<open>Example documents and worlds\<close>

text \<open>
  The documents of the end-to-end scenarios: a pull secret with one entry, the same
  with the entry of the target registry added, with the target registry bound to
  \<^verbatim>\<open>null\<close>, three malformed documents, and two documents that hold the number
  \<^verbatim>\<open>1e999\<close> next to their entries.
\<close>

definition redhatEntry :: "string \<times> json" where
  "redhatEntry = (''registry.redhat.io'', JObject [(''auth'', JString ''abc'')])"

definition rhcephEntry :: "string \<times> json" where
  "rhcephEntry = (''quay.io/rhceph-dev'', JObject [(''auth'', JString ''xyz'')])"

definition docOne :: bytes where
  "docOne = JSONText (JObject [(''auths'', JObject [redhatEntry])])"

definition docBoth :: bytes where
  "docBoth = JSONText (JObject [(''auths'', JObject [redhatEntry, rhcephEntry])])"

definition docNull :: bytes where
  "docNull =
     JSONText (JObject [(''auths'', JObject [redhatEntry, (''quay.io/rhceph-dev'', JNull)])])"

definition docNoAuths :: bytes where
  "docNoAuths = JSONText (JObject [(''foo'', JString ''bar'')])"

definition docAuthsList :: bytes where
  "docAuthsList = JSONText (JObject [(''auths'', JArray [])])"

definition docArray :: bytes where
  "docArray = JSONText (JArray [])"

definition docBothHuge :: bytes where
  "docBothHuge =
     JSONText (JObject [(''auths'', JObject [redhatEntry, rhcephEntry]),
                        (''n'', JNumber 1 999)])"

definition docNullHuge :: bytes where
  "docNullHuge =
     JSONText (JObject [(''auths'', JObject [redhatEntry, (''quay.io/rhceph-dev'', JNull)]),
                        (''n'', JNumber 1 999)])"

text \<open>
  A world in which every call succeeds: the cluster holds \<open>docOne\<close>, \<^verbatim>\<open>jq\<close> prints
  \<open>docBoth\<close>, and the second \<^verbatim>\<open>oc get\<close> prints it back (scenario A).
\<close>

definition worldA :: world where
  "worldA =
     \<lparr>lookPath = (\<lambda>_. True), tempDir = ''/tmp'', workDir = ''/home/user'',
      nextRandom = Some ''123'', writeFile = (\<lambda>_. True), ocLogin = True,
      ocGetPullSecret = Some docOne, ocRegistryLogin = True, jqMerge = Some docBoth,
      ocSetData = True, ocGetPullSecretAgain = Some docBoth, ocApply = (\<lambda>_. True)\<rparr>"

text \<open>Scenario B: the cluster already holds the entry of the target registry.\<close>

definition worldB :: world where
  "worldB = worldA\<lparr>ocGetPullSecret := Some docBoth\<rparr>"

text \<open>
  Scenario C: the registry login writes an empty entries mapping, so \<^verbatim>\<open>jq\<close> prints
  the document it was given.
\<close>

definition worldC :: world where
  "worldC = worldA\<lparr>jqMerge := Some docOne, ocGetPullSecretAgain := Some docOne\<rparr>"

text \<open>The cluster holds the target registry bound to \<^verbatim>\<open>null\<close>; \<^verbatim>\<open>jq\<close> overwrites it.\<close>

definition worldNull :: world where
  "worldNull = worldA\<lparr>ocGetPullSecret := Some docNull\<rparr>"

subsection \<open>Words of the specification\<close>

text \<open>
  Fail-fast sequencing, as the specification words it: the steps run in the order of
  the list, and the first one that fails ends the run with its error; no later step
  runs. Each step is given by the calls it makes and its result.
\<close>

fun inOrder :: "(event list \<times> error option) list \<Rightarrow> event list \<times> error option" where
  "inOrder [] = ([], None)"
| "inOrder ((t, Some err) # steps) = (t, Some err)"
| "inOrder ((t, None) # steps) = (t @ fst (inOrder steps), snd (inOrder steps))"

text \<open>
  The directory a path names a file in: the path up to its last separator. A name
  that is not absolute is resolved against the current working directory.
\<close>

definition dirOf :: "string \<Rightarrow> string" where
  "dirOf path = rev (tl (dropWhile (\<lambda>c. c \<noteq> CHR ''/'') (rev path)))"

definition resolve :: "world \<Rightarrow> string \<Rightarrow> string" where
  "resolve w name =
     (if name \<noteq> [] \<and> hd name = CHR ''/'' then name else joinPath (workDir w) name)"

text \<open>A command line that sets the three required flags, and two manifests.\<close>

definition argsA :: "string list" where
  "argsA =
     [''-url'', ''api.cluster.example.com:6443'', ''-password'', ''abc'',
      ''-rhceph-password=xyz'']"

definition flagsA :: "string \<rightharpoonup> string" where
  "flagsA =
     [''url'' \<mapsto> ''api.cluster.example.com:6443'', ''password'' \<mapsto> ''abc'',
      ''rhceph-password'' \<mapsto> ''xyz'']"

definition icspA :: bytes where
  "icspA = NotJSON ''kind: ImageContentSourcePolicy''"

definition catalogSourceA :: bytes where
  "catalogSourceA = NotJSON ''kind: CatalogSource''"

section \<open>Properties\<close>

subsection \<open>What \<open>split\<close> computes\<close>

lemma split_not_Nil: "split sep s \<noteq> []"
  by (induction s) (auto split: list.splits)

lemma join_split: "join sep (split sep s) = s"
proof (induction s)
  case Nil
  then show ?case by simp
next
  case (Cons c cs)
  obtain p ps where ps: "split sep cs = p # ps"
    using split_not_Nil [of sep cs] by (cases "split sep cs") auto
  show ?case
  proof (cases "c = sep")
    case True
    with Cons ps show ?thesis by simp
  next
    case False
    with Cons ps show ?thesis by (cases ps) auto
  qed
qed

lemma split_no_sep: "p \<in> set (split sep s) \<Longrightarrow> sep \<notin> set p"
proof (induction s arbitrary: p)
  case Nil
  then show ?case by simp
next
  case (Cons c cs)
  then show ?case
    by (cases "split sep cs") (auto split: if_splits)
qed

lemma length_split: "length (split sep s) = Suc (length (filter (\<lambda>c. c = sep) s))"
proof (induction s)
  case Nil
  then show ?case by simp
next
  case (Cons c cs)
  then show ?case
    by (cases "split sep cs") (auto simp: split_not_Nil)
qed

lemma split_append_sep:
  "sep \<notin> set a \<Longrightarrow> split sep (a @ sep # s) = a # split sep s"
  by (induction a) auto

lemma split_segment:
  "sep \<notin> set a \<Longrightarrow> split sep a = [a]"
  by (induction a) auto

text \<open>
  C5. getClusterName returns the second dot-separated segment of the URL when the URL
  splits into at least two segments, and the parse error when it splits into fewer;
  \<^verbatim>\<open>api.cluster.example.com:6443\<close> yields \<^verbatim>\<open>cluster\<close>. The second segment is said
  twice: as the element at index 1 of the split, and as the text \<open>b\<close> between the first
  dot and the next one (or the end) of a URL \<open>a.b\<close> or \<open>a.b.rest\<close>. Fewer than two
  segments means no dot at all.
\<close>

theorem getClusterName_second_segment:
  "(2 \<le> length (split CHR ''.'' url) \<longrightarrow>
      getClusterName url = Inr (split CHR ''.'' url ! 1))
   \<and> (length (split CHR ''.'' url) < 2 \<longrightarrow>
      getClusterName url = Inl CouldNotParseClusterName)
   \<and> (length (split CHR ''.'' url) < 2 \<longleftrightarrow> CHR ''.'' \<notin> set url)
   \<and> (CHR ''.'' \<notin> set a \<and> CHR ''.'' \<notin> set b \<longrightarrow>
      getClusterName (a @ ''.'' @ b) = Inr b
      \<and> getClusterName (a @ ''.'' @ b @ ''.'' @ rest) = Inr b)
   \<and> getClusterName ''api.cluster.example.com:6443'' = Inr ''cluster''"
proof -
  have idx: "getClusterName url = Inr (split CHR ''.'' url ! 1)"
    if "2 \<le> length (split CHR ''.'' url)"
    using that by (simp add: getClusterName_def)
  have err: "getClusterName url = Inl CouldNotParseClusterName"
    if "length (split CHR ''.'' url) < 2"
    using that by (simp add: getClusterName_def)
  have none: "length (split CHR ''.'' url) < 2 \<longleftrightarrow> CHR ''.'' \<notin> set url"
    by (auto simp: length_split filter_empty_conv)
  have two: "getClusterName (a @ ''.'' @ b) = Inr b"
    and three: "getClusterName (a @ ''.'' @ b @ ''.'' @ rest) = Inr b"
    if "CHR ''.'' \<notin> set a" "CHR ''.'' \<notin> set b"
    using that split_not_Nil [of "CHR ''.''" rest]
    by (simp_all add: getClusterName_def split_append_sep split_segment)
  have ex: "getClusterName ''api.cluster.example.com:6443'' = Inr ''cluster''"
    by (simp add: getClusterName_def)
  from idx err none two three ex show ?thesis
    by blast
qed

theorem getClusterName_second_segment_witness:
  "2 \<le> length (split CHR ''.'' ''a.b.c'')
   \<and> getClusterName ''a.b.c'' = Inr ''b''
   \<and> length (split CHR ''.'' ''localhost'') < 2
   \<and> getClusterName ''localhost'' = Inl CouldNotParseClusterName
   \<and> CHR ''.'' \<notin> set ''api'' \<and> CHR ''.'' \<notin> set ''cluster''
   \<and> getClusterName (''api'' @ ''.'' @ ''cluster'') = Inr ''cluster''"
  using getClusterName_second_segment [of "''a.b.c''" "''api''" "''cluster''" "''''"]
    getClusterName_second_segment [of "''localhost''" "''api''" "''cluster''" "''''"]
  by simp

subsection \<open>Go maps and numbers\<close>

lemma index_absent: "k \<notin> fst ` set m \<Longrightarrow> index m k = JNull"
  by (simp add: index_def map_of_eq_None_iff [THEN iffD2])

lemma index_present: "map_of (rev m) k = Some v \<Longrightarrow> index m k = v"
  by (simp add: index_def)

text \<open>\<open>len\<close> counts the entries of the map: its distinct keys.\<close>

lemma len_card: "len m = card (fst ` set m)"
  by (simp add: len_def length_remdups_card_conv)

lemma len_dom: "len m = card (dom (map_of (rev m)))"
  by (simp add: len_card dom_map_of_conv_image_fst)

text \<open>\<^verbatim>\<open>1e999\<close> does not fit a \<^verbatim>\<open>float64\<close>: it is above \<open>8\<^sup>9\<^sup>9\<^sup>9 = 2\<^sup>2\<^sup>9\<^sup>9\<^sup>7\<close>.\<close>

lemma outOfRange_1e999: "outOfRange 1 999"
proof -
  have z: "(0::int) \<le> 2 ^ 970"
    by (rule zero_le_power) simp
  have a: "(2::int) ^ 1024 - 2 ^ 970 \<le> 2 ^ 1024"
    using z by (rule diff_left_mono [of 0 "2 ^ 970" "2 ^ 1024", unfolded diff_zero])
  have b: "(2::int) ^ 1024 \<le> 2 ^ (3 * 999)"
    by (rule power_increasing) simp_all
  have c: "(2::int) ^ (3 * 999) = (2 ^ 3) ^ 999"
    by (rule power_mult)
  have d: "((2::int) ^ 3) ^ 999 \<le> 10 ^ 999"
    by (rule power_mono) simp_all
  have e: "(2::int) ^ 1024 - 2 ^ 970 \<le> 10 ^ 999"
    by (rule order_trans [OF a order_trans [OF b [unfolded c] d]])
  have f: "(2::int) ^ 1024 - 2 ^ 970 \<le> \<bar>1\<bar> * 10 ^ nat 999"
    using e by (simp only: abs_one mult_1 nat_numeral)
  show ?thesis
    unfolding outOfRange_def using f by (simp only: if_True zero_le_numeral)
qed

text \<open>The example documents, decoded.\<close>

lemma unmarshal_examples:
  "unmarshal docOne = Some [(''auths'', JObject [redhatEntry])]"
  "unmarshal docBoth = Some [(''auths'', JObject [redhatEntry, rhcephEntry])]"
  "unmarshal docNull
     = Some [(''auths'', JObject [redhatEntry, (''quay.io/rhceph-dev'', JNull)])]"
  "unmarshal docNoAuths = Some [(''foo'', JString ''bar'')]"
  "unmarshal docAuthsList = Some [(''auths'', JArray [])]"
  "unmarshal docArray = None"
  "unmarshal docBothHuge = None"
  "unmarshal docNullHuge = None"
  by (simp_all add: docOne_def docBoth_def docNull_def docNoAuths_def docAuthsList_def
      docArray_def docBothHuge_def docNullHuge_def redhatEntry_def rhcephEntry_def
      decodes_def outOfRange_1e999)

lemma unmarshal_object:
  "unmarshal doc = Some m \<Longrightarrow> doc = JSONText JNull \<and> m = [] \<or> doc = JSONText (JObject m)"
  by (cases doc rule: unmarshal.cases) (auto split: if_splits)

lemma unmarshal_decodes:
  "decodes (JObject kvs) \<Longrightarrow> unmarshal (JSONText (JObject kvs)) = Some kvs"
  by simp

lemmas example_defs =
  worldA_def worldB_def worldC_def worldNull_def redhatEntry_def rhcephEntry_def decodes_def

subsection \<open>The credential-merge step\<close>

lemmas run_simps =
  example_defs addRHCEPHAuth_def Let_def index_def len_def unmarshal_examples

text \<open>
  C1, as the specification states it: for a document without the target registry key,
  any count of the merged document other than the original count plus one yields the
  count-mismatch error. It fails when a call between the merge and the check fails: in
  scenario C (one entry before and after the merge) with a failing \<^verbatim>\<open>oc set data\<close>
  the error is that of the update, with a failing second \<^verbatim>\<open>oc get\<close> that of the read,
  and with a failing write of the merged file that of the write.
\<close>

theorem count_check_counterexample:
  "ocGetPullSecret (worldC\<lparr>ocSetData := False\<rparr>) = Some docOne
   \<and> docOne = JSONText (JObject [(''auths'', JObject [redhatEntry])])
   \<and> ''quay.io/rhceph-dev'' \<notin> fst ` set [redhatEntry]
   \<and> jqMerge (worldC\<lparr>ocSetData := False\<rparr>) = Some docOne
   \<and> len [redhatEntry] \<noteq> len [redhatEntry] + 1
   \<and> snd (addRHCEPHAuth (worldC\<lparr>ocSetData := False\<rparr>)
          ''cluster'' ''/tmp/cluster-kubeconfig-123'' ''xyz'')
       = Some ErrorUpdatingPullSecret
   \<and> snd (addRHCEPHAuth (worldC\<lparr>ocGetPullSecretAgain := None\<rparr>)
          ''cluster'' ''/tmp/cluster-kubeconfig-123'' ''xyz'')
       = Some ErrorGettingPullSecret
   \<and> snd (addRHCEPHAuth (worldC\<lparr>writeFile := (\<lambda>f. f \<noteq> ''cluster-new-pull-secret.json'')\<rparr>)
          ''cluster'' ''/tmp/cluster-kubeconfig-123'' ''xyz'')
       = Some ErrorWritingMergedPullSecret"
proof -
  have d: "docOne = JSONText (JObject [(''auths'', JObject [redhatEntry])])"
    by (simp add: docOne_def)
  have n: "''quay.io/rhceph-dev'' \<notin> fst ` set [redhatEntry]"
    "len [redhatEntry] \<noteq> len [redhatEntry] + 1"
    by (simp_all add: redhatEntry_def)
  have r: "ocGetPullSecret (worldC\<lparr>ocSetData := False\<rparr>) = Some docOne"
    "jqMerge (worldC\<lparr>ocSetData := False\<rparr>) = Some docOne"
    "snd (addRHCEPHAuth (worldC\<lparr>ocSetData := False\<rparr>)
          ''cluster'' ''/tmp/cluster-kubeconfig-123'' ''xyz'')
       = Some ErrorUpdatingPullSecret"
    "snd (addRHCEPHAuth (worldC\<lparr>ocGetPullSecretAgain := None\<rparr>)
          ''cluster'' ''/tmp/cluster-kubeconfig-123'' ''xyz'')
       = Some ErrorGettingPullSecret"
    "snd (addRHCEPHAuth (worldC\<lparr>writeFile := (\<lambda>f. f \<noteq> ''cluster-new-pull-secret.json'')\<rparr>)
          ''cluster'' ''/tmp/cluster-kubeconfig-123'' ''xyz'')
       = Some ErrorWritingMergedPullSecret"
    by (simp_all add: run_simps)
  show ?thesis
    by (intro conjI d n r)
qed

text \<open>
  C1, amended. For every pull-secret document whose auths mapping does not contain the
  target registry key, addRHCEPHAuth succeeds only if the auths entry count of the
  merged document (the output of \<^verbatim>\<open>jq\<close>) equals the original auths entry count plus
  one; and when the step gets as far as the check (\<^verbatim>\<open>json.Unmarshal\<close> decodes the
  document, both files are written, the registry login, \<^verbatim>\<open>jq\<close>, \<^verbatim>\<open>oc set data\<close>
  and the second \<^verbatim>\<open>oc get\<close> succeed, and the merged document decodes and has an
  auths mapping), any other count yields the count-mismatch error
  \<open>UnexpectedNumberOfElements\<close>.
\<close>

theorem addRHCEPHAuth_count_plus_one:
  assumes "ocGetPullSecret w = Some (JSONText (JObject kvs))"
    and "map_of (rev kvs) ''auths'' = Some (JObject auths)"
    and "''quay.io/rhceph-dev'' \<notin> fst ` set auths"
  shows "(snd (addRHCEPHAuth w c k p) = None \<longrightarrow>
            (\<exists>merged newPullSecret newAuths.
               jqMerge w = Some merged \<and> unmarshal merged = Some newPullSecret
               \<and> assertMap (index newPullSecret ''auths'') = Some newAuths
               \<and> len newAuths = len auths + 1))
       \<and> (\<forall>merged newPullSecret newAuths.
            decodes (JObject kvs)
            \<and> writeFile w (c @ ''-pull-secret.json'') \<and> ocRegistryLogin w
            \<and> jqMerge w = Some merged \<and> writeFile w (c @ ''-new-pull-secret.json'')
            \<and> ocSetData w \<and> ocGetPullSecretAgain w \<noteq> None
            \<and> unmarshal merged = Some newPullSecret
            \<and> assertMap (index newPullSecret ''auths'') = Some newAuths
            \<and> len newAuths \<noteq> len auths + 1
            \<longrightarrow> snd (addRHCEPHAuth w c k p) = Some UnexpectedNumberOfElements)"
proof (cases "decodes (JObject kvs)")
  case True
  then have u: "unmarshal (JSONText (JObject kvs)) = Some kvs"
    by (rule unmarshal_decodes)
  have a: "index kvs ''auths'' = JObject auths"
    using assms(2) by (rule index_present)
  have b: "index auths ''quay.io/rhceph-dev'' = JNull"
    using assms(3) by (rule index_absent)
  show ?thesis
    using assms(1) a b
    by (auto simp: addRHCEPHAuth_def Let_def u simp del: unmarshal.simps
        split: option.splits)
next
  case False
  then have u: "unmarshal (JSONText (JObject kvs)) = None"
    by simp
  have "snd (addRHCEPHAuth w c k p) \<noteq> None"
    using assms(1) by (simp add: addRHCEPHAuth_def Let_def u del: unmarshal.simps)
  with False show ?thesis
    by auto
qed

theorem addRHCEPHAuth_count_plus_one_witness:
  "ocGetPullSecret worldA = Some (JSONText (JObject [(''auths'', JObject [redhatEntry])]))
   \<and> decodes (JObject [(''auths'', JObject [redhatEntry])])
   \<and> map_of (rev [(''auths'', JObject [redhatEntry])]) ''auths'' = Some (JObject [redhatEntry])
   \<and> ''quay.io/rhceph-dev'' \<notin> fst ` set [redhatEntry]
   \<and> snd (addRHCEPHAuth worldA ''cluster'' ''/tmp/cluster-kubeconfig-123'' ''xyz'') = None
   \<and> jqMerge worldA = Some docBoth
   \<and> len [redhatEntry, rhcephEntry] = len [redhatEntry] + 1
   \<and> ocGetPullSecret worldC = Some (JSONText (JObject [(''auths'', JObject [redhatEntry])]))
   \<and> jqMerge worldC = Some docOne
   \<and> len [redhatEntry] \<noteq> len [redhatEntry] + 1
   \<and> snd (addRHCEPHAuth worldC ''cluster'' ''/tmp/cluster-kubeconfig-123'' ''xyz'')
       = Some UnexpectedNumberOfElements"
  using addRHCEPHAuth_count_plus_one
      [where w = worldA and kvs = "[(''auths'', JObject [redhatEntry])]"
         and auths = "[redhatEntry]" and c = "''cluster''"
         and k = "''/tmp/cluster-kubeconfig-123''" and p = "''xyz''"]
    addRHCEPHAuth_count_plus_one
      [where w = worldC and kvs = "[(''auths'', JObject [redhatEntry])]"
         and auths = "[redhatEntry]" and c = "''cluster''"
         and k = "''/tmp/cluster-kubeconfig-123''" and p = "''xyz''"]
  by (simp add: run_simps docOne_def)






text \<open>
  C3, as the specification states it: for every well-formed pull-secret document whose
  auths mapping contains the key \<^verbatim>\<open>quay.io/rhceph-dev\<close>, the step is a no-op. It fails
  for a document that binds the key to \<^verbatim>\<open>null\<close>: the registry login runs, the cluster
  secret is updated, and the step ends with the count-mismatch error. It also fails
  for a document that holds the key and, elsewhere, the number \<^verbatim>\<open>1e999\<close>, which
  \<^verbatim>\<open>json.Unmarshal\<close> rejects, and when the snapshot of the document cannot be written.
\<close>

theorem noop_counterexample:
  "ocGetPullSecret worldNull
     = Some (JSONText (JObject [(''auths'',
         JObject [redhatEntry, (''quay.io/rhceph-dev'', JNull)])]))
   \<and> ''quay.io/rhceph-dev'' \<in> fst ` set [redhatEntry, (''quay.io/rhceph-dev'', JNull)]
   \<and> registryLoginCmd ''xyz'' ''cluster-append-pull-secret.json'' ''/tmp/cluster-kubeconfig-123''
       \<in> set (fst (addRHCEPHAuth worldNull ''cluster'' ''/tmp/cluster-kubeconfig-123'' ''xyz''))
   \<and> updateCmd ''cluster-new-pull-secret.json'' ''/tmp/cluster-kubeconfig-123''
       \<in> set (fst (addRHCEPHAuth worldNull ''cluster'' ''/tmp/cluster-kubeconfig-123'' ''xyz''))
   \<and> snd (addRHCEPHAuth worldNull ''cluster'' ''/tmp/cluster-kubeconfig-123'' ''xyz'')
       = Some UnexpectedNumberOfElements
   \<and> docBothHuge
       = JSONText (JObject [(''auths'', JObject [redhatEntry, rhcephEntry]),
                            (''n'', JNumber 1 999)])
   \<and> ''quay.io/rhceph-dev'' \<in> fst ` set [redhatEntry, rhcephEntry]
   \<and> snd (addRHCEPHAuth (worldA\<lparr>ocGetPullSecret := Some docBothHuge\<rparr>)
          ''cluster'' ''/tmp/cluster-kubeconfig-123'' ''xyz'')
       = Some ErrorParsingPullSecretJSON
   \<and> snd (addRHCEPHAuth (worldB\<lparr>writeFile := (\<lambda>f. False)\<rparr>)
          ''cluster'' ''/tmp/cluster-kubeconfig-123'' ''xyz'')
       = Some ErrorWritingPullSecret"
proof -
  have g: "ocGetPullSecret worldNull
     = Some (JSONText (JObject [(''auths'',
         JObject [redhatEntry, (''quay.io/rhceph-dev'', JNull)])]))"
    by (simp add: worldNull_def docNull_def)
  have d: "docBothHuge
       = JSONText (JObject [(''auths'', JObject [redhatEntry, rhcephEntry]),
                            (''n'', JNumber 1 999)])"
    by (simp add: docBothHuge_def)
  have m: "''quay.io/rhceph-dev'' \<in> fst ` set [redhatEntry, (''quay.io/rhceph-dev'', JNull)]"
    "''quay.io/rhceph-dev'' \<in> fst ` set [redhatEntry, rhcephEntry]"
    by (simp_all add: rhcephEntry_def)
  have r: "registryLoginCmd ''xyz'' ''cluster-append-pull-secret.json'' ''/tmp/cluster-kubeconfig-123''
       \<in> set (fst (addRHCEPHAuth worldNull ''cluster'' ''/tmp/cluster-kubeconfig-123'' ''xyz''))"
    "updateCmd ''cluster-new-pull-secret.json'' ''/tmp/cluster-kubeconfig-123''
       \<in> set (fst (addRHCEPHAuth worldNull ''cluster'' ''/tmp/cluster-kubeconfig-123'' ''xyz''))"
    "snd (addRHCEPHAuth worldNull ''cluster'' ''/tmp/cluster-kubeconfig-123'' ''xyz'')
       = Some UnexpectedNumberOfElements"
    "snd (addRHCEPHAuth (worldA\<lparr>ocGetPullSecret := Some docBothHuge\<rparr>)
          ''cluster'' ''/tmp/cluster-kubeconfig-123'' ''xyz'')
       = Some ErrorParsingPullSecretJSON"
    "snd (addRHCEPHAuth (worldB\<lparr>writeFile := (\<lambda>f. False)\<rparr>)
          ''cluster'' ''/tmp/cluster-kubeconfig-123'' ''xyz'')
       = Some ErrorWritingPullSecret"
    by (simp_all add: run_simps)
  show ?thesis
    by (intro conjI g d m r)
qed

text \<open>
  C3, amended. For every pull-secret document that \<^verbatim>\<open>json.Unmarshal\<close> decodes (a
  JSON mapping with no number out of the range of \<^verbatim>\<open>float64\<close> and no nesting deeper
  than the limit of the decoder) and whose auths mapping binds the key
  \<^verbatim>\<open>quay.io/rhceph-dev\<close> to a value other than \<^verbatim>\<open>null\<close>, the step (once the
  snapshot of the document is written) returns success as a no-op: it reads the
  secret, writes the snapshot and logs that the entry exists; the registry login is
  not run, nothing is merged, and the cluster secret is not written.
\<close>

theorem addRHCEPHAuth_noop_when_present:
  assumes "ocGetPullSecret w = Some (JSONText (JObject kvs))"
    and "decodes (JObject kvs)"
    and "writeFile w (c @ ''-pull-secret.json'')"
    and "map_of (rev kvs) ''auths'' = Some (JObject auths)"
    and "map_of (rev auths) ''quay.io/rhceph-dev'' = Some v"
    and "v \<noteq> JNull"
  shows "addRHCEPHAuth w c k p =
           ([getPullSecretCmd k,
             WriteFile (c @ ''-pull-secret.json'') (JSONText (JObject kvs)),
             Slog LevelInfo ''RHCEPH auth already exists in pull secret''], None)
         \<and> registryLoginCmd p (c @ ''-append-pull-secret.json'') k
             \<notin> set (fst (addRHCEPHAuth w c k p))
         \<and> mergeCmd (c @ ''-pull-secret.json'') (c @ ''-append-pull-secret.json'')
             \<notin> set (fst (addRHCEPHAuth w c k p))
         \<and> updateCmd (c @ ''-new-pull-secret.json'') k
             \<notin> set (fst (addRHCEPHAuth w c k p))"
proof -
  have u: "unmarshal (JSONText (JObject kvs)) = Some kvs"
    using assms(2) by (rule unmarshal_decodes)
  have a: "index kvs ''auths'' = JObject auths"
    using assms(4) by (rule index_present)
  have b: "index auths ''quay.io/rhceph-dev'' = v"
    using assms(5) by (rule index_present)
  have run: "addRHCEPHAuth w c k p =
           ([getPullSecretCmd k,
             WriteFile (c @ ''-pull-secret.json'') (JSONText (JObject kvs)),
             Slog LevelInfo ''RHCEPH auth already exists in pull secret''], None)"
    using assms(1,3,6) a b by (simp add: addRHCEPHAuth_def Let_def u del: unmarshal.simps)
  show ?thesis
    unfolding run
    by (simp add: getPullSecretCmd_def registryLoginCmd_def mergeCmd_def updateCmd_def)
qed

theorem addRHCEPHAuth_noop_when_present_witness:
  "ocGetPullSecret worldB
     = Some (JSONText (JObject [(''auths'', JObject [redhatEntry, rhcephEntry])]))
   \<and> decodes (JObject [(''auths'', JObject [redhatEntry, rhcephEntry])])
   \<and> writeFile worldB (''cluster'' @ ''-pull-secret.json'')
   \<and> map_of (rev [(''auths'', JObject [redhatEntry, rhcephEntry])]) ''auths''
       = Some (JObject [redhatEntry, rhcephEntry])
   \<and> map_of (rev [redhatEntry, rhcephEntry]) ''quay.io/rhceph-dev''
       = Some (JObject [(''auth'', JString ''xyz'')])
   \<and> JObject [(''auth'', JString ''xyz'')] \<noteq> JNull
   \<and> addRHCEPHAuth worldB ''cluster'' ''/tmp/cluster-kubeconfig-123'' ''xyz'' =
       ([getPullSecretCmd ''/tmp/cluster-kubeconfig-123'',
         WriteFile (''cluster'' @ ''-pull-secret.json'')
           (JSONText (JObject [(''auths'', JObject [redhatEntry, rhcephEntry])])),
         Slog LevelInfo ''RHCEPH auth already exists in pull secret''], None)"
  using addRHCEPHAuth_noop_when_present
      [of worldB "[(''auths'', JObject [redhatEntry, rhcephEntry])]" "''cluster''"
          "[redhatEntry, rhcephEntry]" "JObject [(''auth'', JString ''xyz'')]"
          "''/tmp/cluster-kubeconfig-123''" "''xyz''"]
  by (simp add: example_defs docBoth_def)

text \<open>
  C4, as the specification states it: every malformed document yields a
  malformed-document error. It fails when the snapshot of the document cannot be
  written: the write precedes the parse, and for the document \<^verbatim>\<open>[]\<close> the error is
  then that of the write.
\<close>

theorem malformed_counterexample:
  "ocGetPullSecret (worldA\<lparr>ocGetPullSecret := Some docArray, writeFile := (\<lambda>f. False)\<rparr>)
     = Some docArray
   \<and> docArray = JSONText (JArray [])
   \<and> addRHCEPHAuth (worldA\<lparr>ocGetPullSecret := Some docArray, writeFile := (\<lambda>f. False)\<rparr>)
        ''cluster'' ''/tmp/cluster-kubeconfig-123'' ''xyz''
      = ([getPullSecretCmd ''/tmp/cluster-kubeconfig-123'',
          WriteFile ''cluster-pull-secret.json'' docArray],
         Some ErrorWritingPullSecret)"
proof -
  have d: "docArray = JSONText (JArray [])"
    by (simp add: docArray_def)
  have r: "ocGetPullSecret (worldA\<lparr>ocGetPullSecret := Some docArray, writeFile := (\<lambda>f. False)\<rparr>)
     = Some docArray"
    "addRHCEPHAuth (worldA\<lparr>ocGetPullSecret := Some docArray, writeFile := (\<lambda>f. False)\<rparr>)
        ''cluster'' ''/tmp/cluster-kubeconfig-123'' ''xyz''
      = ([getPullSecretCmd ''/tmp/cluster-kubeconfig-123'',
          WriteFile ''cluster-pull-secret.json'' docArray],
         Some ErrorWritingPullSecret)"
    by (simp_all add: run_simps)
  show ?thesis
    by (intro conjI d r)
qed

text \<open>
  C4, amended. For every pull-secret document that is not a JSON mapping, or whose
  auths field is missing or not a mapping, the step fails and the registry login is
  never run: the step has read the secret and written the snapshot, and nothing else.
  When the snapshot can be written the error is one of the two malformed-document
  errors, \<open>ErrorParsingPullSecretJSON\<close> or \<open>InvalidPullSecretFormat\<close>; when it cannot,
  the error is that of the write.
\<close>

theorem addRHCEPHAuth_malformed:
  assumes "ocGetPullSecret w = Some doc"
    and "(\<forall>kvs. doc \<noteq> JSONText (JObject kvs))
         \<or> (\<exists>kvs. doc = JSONText (JObject kvs)
               \<and> (map_of (rev kvs) ''auths'' = None
                  \<or> (\<exists>v. map_of (rev kvs) ''auths'' = Some v \<and> (\<forall>auths. v \<noteq> JObject auths))))"
  shows "snd (addRHCEPHAuth w c k p) \<noteq> None
       \<and> (writeFile w (c @ ''-pull-secret.json'') \<longrightarrow>
            snd (addRHCEPHAuth w c k p) = Some ErrorParsingPullSecretJSON
            \<or> snd (addRHCEPHAuth w c k p) = Some InvalidPullSecretFormat)
       \<and> (\<not> writeFile w (c @ ''-pull-secret.json'') \<longrightarrow>
            snd (addRHCEPHAuth w c k p) = Some ErrorWritingPullSecret)
       \<and> registryLoginCmd p (c @ ''-append-pull-secret.json'') k
            \<notin> set (fst (addRHCEPHAuth w c k p))
       \<and> fst (addRHCEPHAuth w c k p)
            = [getPullSecretCmd k, WriteFile (c @ ''-pull-secret.json'') doc]"
proof -
  have bad: "unmarshal doc = None
      \<or> (\<exists>m. unmarshal doc = Some m \<and> assertMap (index m ''auths'') = None)"
    using assms(2)
  proof
    assume n: "\<forall>kvs. doc \<noteq> JSONText (JObject kvs)"
    show ?thesis
    proof (cases doc)
      case (NotJSON s)
      then show ?thesis by simp
    next
      case (JSONText j)
      with n show ?thesis by (cases j) (simp_all add: index_def)
    qed
  next
    assume "\<exists>kvs. doc = JSONText (JObject kvs)
               \<and> (map_of (rev kvs) ''auths'' = None
                  \<or> (\<exists>v. map_of (rev kvs) ''auths'' = Some v \<and> (\<forall>auths. v \<noteq> JObject auths)))"
    then obtain kvs where d: "doc = JSONText (JObject kvs)"
      and m: "map_of (rev kvs) ''auths'' = None
                  \<or> (\<exists>v. map_of (rev kvs) ''auths'' = Some v \<and> (\<forall>auths. v \<noteq> JObject auths))"
      by blast
    from m have "assertMap (index kvs ''auths'') = None"
    proof
      assume "map_of (rev kvs) ''auths'' = None"
      then show ?thesis by (simp add: index_def)
    next
      assume "\<exists>v. map_of (rev kvs) ''auths'' = Some v \<and> (\<forall>auths. v \<noteq> JObject auths)"
      then obtain v where "map_of (rev kvs) ''auths'' = Some v" "\<forall>auths. v \<noteq> JObject auths"
        by blast
      then show ?thesis by (cases v) (simp_all add: index_def)
    qed
    with d show ?thesis by (cases "decodes (JObject kvs)") simp_all
  qed
  have tr: "fst (addRHCEPHAuth w c k p)
            = [getPullSecretCmd k, WriteFile (c @ ''-pull-secret.json'') doc]"
    using assms(1) bad by (auto simp: addRHCEPHAuth_def Let_def simp del: unmarshal.simps)
  have res: "snd (addRHCEPHAuth w c k p) \<noteq> None"
    using assms(1) bad by (auto simp: addRHCEPHAuth_def Let_def simp del: unmarshal.simps)
  have kind: "snd (addRHCEPHAuth w c k p) = Some ErrorParsingPullSecretJSON
            \<or> snd (addRHCEPHAuth w c k p) = Some InvalidPullSecretFormat"
    if "writeFile w (c @ ''-pull-secret.json'')"
    using assms(1) bad that by (auto simp: addRHCEPHAuth_def Let_def simp del: unmarshal.simps)
  have wr: "snd (addRHCEPHAuth w c k p) = Some ErrorWritingPullSecret"
    if "\<not> writeFile w (c @ ''-pull-secret.json'')"
    using assms(1) that by (simp add: addRHCEPHAuth_def Let_def del: unmarshal.simps)
  have nolog: "registryLoginCmd p (c @ ''-append-pull-secret.json'') k
            \<notin> set (fst (addRHCEPHAuth w c k p))"
    unfolding tr by (simp add: getPullSecretCmd_def registryLoginCmd_def)
  from tr res kind wr nolog show ?thesis by blast
qed

theorem addRHCEPHAuth_malformed_witness:
  "ocGetPullSecret (worldA\<lparr>ocGetPullSecret := Some docArray\<rparr>) = Some docArray
   \<and> (\<forall>kvs. docArray \<noteq> JSONText (JObject kvs))
   \<and> writeFile (worldA\<lparr>ocGetPullSecret := Some docArray\<rparr>) (''cluster'' @ ''-pull-secret.json'')
   \<and> addRHCEPHAuth (worldA\<lparr>ocGetPullSecret := Some docArray\<rparr>)
         ''cluster'' ''/tmp/cluster-kubeconfig-123'' ''xyz''
       = ([getPullSecretCmd ''/tmp/cluster-kubeconfig-123'',
           WriteFile (''cluster'' @ ''-pull-secret.json'') docArray],
          Some ErrorParsingPullSecretJSON)
   \<and> docNoAuths = JSONText (JObject [(''foo'', JString ''bar'')])
   \<and> map_of (rev [(''foo'', JString ''bar'')]) ''auths'' = None
   \<and> addRHCEPHAuth (worldA\<lparr>ocGetPullSecret := Some docNoAuths\<rparr>)
         ''cluster'' ''/tmp/cluster-kubeconfig-123'' ''xyz''
       = ([getPullSecretCmd ''/tmp/cluster-kubeconfig-123'',
           WriteFile (''cluster'' @ ''-pull-secret.json'') docNoAuths],
          Some InvalidPullSecretFormat)
   \<and> docAuthsList = JSONText (JObject [(''auths'', JArray [])])
   \<and> map_of (rev [(''auths'', JArray [])]) ''auths'' = Some (JArray [])
   \<and> (\<forall>auths. JArray [] \<noteq> JObject auths)
   \<and> addRHCEPHAuth (worldA\<lparr>ocGetPullSecret := Some docAuthsList\<rparr>)
         ''cluster'' ''/tmp/cluster-kubeconfig-123'' ''xyz''
       = ([getPullSecretCmd ''/tmp/cluster-kubeconfig-123'',
           WriteFile (''cluster'' @ ''-pull-secret.json'') docAuthsList],
          Some InvalidPullSecretFormat)
   \<and> (snd (addRHCEPHAuth (worldA\<lparr>ocGetPullSecret := Some docArray\<rparr>)
           ''cluster'' ''/tmp/cluster-kubeconfig-123'' ''xyz'') = Some ErrorParsingPullSecretJSON
        \<or> snd (addRHCEPHAuth (worldA\<lparr>ocGetPullSecret := Some docArray\<rparr>)
           ''cluster'' ''/tmp/cluster-kubeconfig-123'' ''xyz'') = Some InvalidPullSecretFormat)
   \<and> \<not> writeFile (worldA\<lparr>ocGetPullSecret := Some docArray, writeFile := (\<lambda>f. False)\<rparr>)
         (''cluster'' @ ''-pull-secret.json'')
   \<and> snd (addRHCEPHAuth (worldA\<lparr>ocGetPullSecret := Some docArray, writeFile := (\<lambda>f. False)\<rparr>)
          ''cluster'' ''/tmp/cluster-kubeconfig-123'' ''xyz'') = Some ErrorWritingPullSecret"
proof -
  have h1: "\<forall>kvs. docArray \<noteq> JSONText (JObject kvs)"
    by (simp add: docArray_def)
  have h2: "docNoAuths = JSONText (JObject [(''foo'', JString ''bar'')])"
    "map_of (rev [(''foo'', JString ''bar'')]) ''auths'' = None"
    by (simp_all add: docNoAuths_def)
  have h3: "docAuthsList = JSONText (JObject [(''auths'', JArray [])])"
    "map_of (rev [(''auths'', JArray [])]) ''auths'' = Some (JArray [])"
    "\<forall>auths. JArray [] \<noteq> JObject auths"
    by (simp_all add: docAuthsList_def)
  have g: "ocGetPullSecret (worldA\<lparr>ocGetPullSecret := Some docArray\<rparr>) = Some docArray"
    by simp
  have wr: "writeFile (worldA\<lparr>ocGetPullSecret := Some docArray\<rparr>) (''cluster'' @ ''-pull-secret.json'')"
    by (simp add: worldA_def)
  have r1: "snd (addRHCEPHAuth (worldA\<lparr>ocGetPullSecret := Some docArray\<rparr>)
         ''cluster'' ''/tmp/cluster-kubeconfig-123'' ''xyz'') = Some ErrorParsingPullSecretJSON"
    and r2: "snd (addRHCEPHAuth (worldA\<lparr>ocGetPullSecret := Some docNoAuths\<rparr>)
         ''cluster'' ''/tmp/cluster-kubeconfig-123'' ''xyz'') = Some InvalidPullSecretFormat"
    and r3: "snd (addRHCEPHAuth (worldA\<lparr>ocGetPullSecret := Some docAuthsList\<rparr>)
         ''cluster'' ''/tmp/cluster-kubeconfig-123'' ''xyz'') = Some InvalidPullSecretFormat"
    by (simp_all add: run_simps)
  have t1: "fst (addRHCEPHAuth (worldA\<lparr>ocGetPullSecret := Some docArray\<rparr>)
         ''cluster'' ''/tmp/cluster-kubeconfig-123'' ''xyz'')
       = [getPullSecretCmd ''/tmp/cluster-kubeconfig-123'',
           WriteFile (''cluster'' @ ''-pull-secret.json'') docArray]"
    using addRHCEPHAuth_malformed
      [of "worldA\<lparr>ocGetPullSecret := Some docArray\<rparr>" docArray
          "''cluster''" "''/tmp/cluster-kubeconfig-123''" "''xyz''"] h1
    by simp
  have hyp2: "(\<forall>kvs. docNoAuths \<noteq> JSONText (JObject kvs))
         \<or> (\<exists>kvs. docNoAuths = JSONText (JObject kvs)
               \<and> (map_of (rev kvs) ''auths'' = None
                  \<or> (\<exists>v. map_of (rev kvs) ''auths'' = Some v \<and> (\<forall>auths. v \<noteq> JObject auths))))"
    using h2 by (intro disjI2 exI [of _ "[(''foo'', JString ''bar'')]"]) simp
  have hyp3: "(\<forall>kvs. docAuthsList \<noteq> JSONText (JObject kvs))
         \<or> (\<exists>kvs. docAuthsList = JSONText (JObject kvs)
               \<and> (map_of (rev kvs) ''auths'' = None
                  \<or> (\<exists>v. map_of (rev kvs) ''auths'' = Some v \<and> (\<forall>auths. v \<noteq> JObject auths))))"
    using h3 by (intro disjI2 exI [of _ "[(''auths'', JArray [])]"]) simp
  have t2: "fst (addRHCEPHAuth (worldA\<lparr>ocGetPullSecret := Some docNoAuths\<rparr>)
         ''cluster'' ''/tmp/cluster-kubeconfig-123'' ''xyz'')
       = [getPullSecretCmd ''/tmp/cluster-kubeconfig-123'',
           WriteFile (''cluster'' @ ''-pull-secret.json'') docNoAuths]"
    using addRHCEPHAuth_malformed
      [of "worldA\<lparr>ocGetPullSecret := Some docNoAuths\<rparr>" docNoAuths
          "''cluster''" "''/tmp/cluster-kubeconfig-123''" "''xyz''", OF _ hyp2]
    by simp
  have t3: "fst (addRHCEPHAuth (worldA\<lparr>ocGetPullSecret := Some docAuthsList\<rparr>)
         ''cluster'' ''/tmp/cluster-kubeconfig-123'' ''xyz'')
       = [getPullSecretCmd ''/tmp/cluster-kubeconfig-123'',
           WriteFile (''cluster'' @ ''-pull-secret.json'') docAuthsList]"
    using addRHCEPHAuth_malformed
      [of "worldA\<lparr>ocGetPullSecret := Some docAuthsList\<rparr>" docAuthsList
          "''cluster''" "''/tmp/cluster-kubeconfig-123''" "''xyz''", OF _ hyp3]
    by simp
  have p1: "addRHCEPHAuth (worldA\<lparr>ocGetPullSecret := Some docArray\<rparr>)
         ''cluster'' ''/tmp/cluster-kubeconfig-123'' ''xyz''
       = ([getPullSecretCmd ''/tmp/cluster-kubeconfig-123'',
           WriteFile (''cluster'' @ ''-pull-secret.json'') docArray],
          Some ErrorParsingPullSecretJSON)"
    and p2: "addRHCEPHAuth (worldA\<lparr>ocGetPullSecret := Some docNoAuths\<rparr>)
         ''cluster'' ''/tmp/cluster-kubeconfig-123'' ''xyz''
       = ([getPullSecretCmd ''/tmp/cluster-kubeconfig-123'',
           WriteFile (''cluster'' @ ''-pull-secret.json'') docNoAuths],
          Some InvalidPullSecretFormat)"
    and p3: "addRHCEPHAuth (worldA\<lparr>ocGetPullSecret := Some docAuthsList\<rparr>)
         ''cluster'' ''/tmp/cluster-kubeconfig-123'' ''xyz''
       = ([getPullSecretCmd ''/tmp/cluster-kubeconfig-123'',
           WriteFile (''cluster'' @ ''-pull-secret.json'') docAuthsList],
          Some InvalidPullSecretFormat)"
    using r1 r2 r3 t1 t2 t3 by (simp_all add: prod_eq_iff)
  note kind = addRHCEPHAuth_malformed
      [where w = "worldA\<lparr>ocGetPullSecret := Some docArray\<rparr>" and doc = docArray
         and c = "''cluster''" and k = "''/tmp/cluster-kubeconfig-123''" and p = "''xyz''",
       OF g disjI1 [OF h1], THEN conjunct2, THEN conjunct1, rule_format, OF wr]
  have g': "ocGetPullSecret (worldA\<lparr>ocGetPullSecret := Some docArray, writeFile := (\<lambda>f. False)\<rparr>)
      = Some docArray"
    and nw: "\<not> writeFile (worldA\<lparr>ocGetPullSecret := Some docArray, writeFile := (\<lambda>f. False)\<rparr>)
         (''cluster'' @ ''-pull-secret.json'')"
    by simp_all
  note wfail = addRHCEPHAuth_malformed
      [where w = "worldA\<lparr>ocGetPullSecret := Some docArray, writeFile := (\<lambda>f. False)\<rparr>"
         and doc = docArray and c = "''cluster''" and k = "''/tmp/cluster-kubeconfig-123''"
         and p = "''xyz''",
       OF g' disjI1 [OF h1], THEN conjunct2, THEN conjunct2, THEN conjunct1, rule_format, OF nw]
  show ?thesis
    by (intro conjI g h1 wr p1 h2 p2 h3 p3 kind nw wfail)
qed



text \<open>
  C10, as stated: for every well-formed pull-secret document that binds the key
  \<^verbatim>\<open>quay.io/rhceph-dev\<close> to \<^verbatim>\<open>null\<close>, the run proceeds to the registry login and the
  merge. It does not when the document also holds the number \<^verbatim>\<open>1e999\<close>, which
  \<^verbatim>\<open>json.Unmarshal\<close> rejects, nor when the snapshot of the document cannot be
  written: in both runs the step ends after the write of the snapshot.
\<close>

theorem null_entry_counterexample:
  "docNullHuge
     = JSONText (JObject [(''auths'', JObject [redhatEntry, (''quay.io/rhceph-dev'', JNull)]),
                          (''n'', JNumber 1 999)])
   \<and> map_of (rev [redhatEntry, (''quay.io/rhceph-dev'', JNull)]) ''quay.io/rhceph-dev''
       = Some JNull
   \<and> addRHCEPHAuth (worldA\<lparr>ocGetPullSecret := Some docNullHuge\<rparr>)
        ''cluster'' ''/tmp/cluster-kubeconfig-123'' ''xyz''
      = ([getPullSecretCmd ''/tmp/cluster-kubeconfig-123'',
          WriteFile ''cluster-pull-secret.json'' docNullHuge],
         Some ErrorParsingPullSecretJSON)
   \<and> addRHCEPHAuth (worldNull\<lparr>writeFile := (\<lambda>f. False)\<rparr>)
        ''cluster'' ''/tmp/cluster-kubeconfig-123'' ''xyz''
      = ([getPullSecretCmd ''/tmp/cluster-kubeconfig-123'',
          WriteFile ''cluster-pull-secret.json'' docNull],
         Some ErrorWritingPullSecret)"
proof -
  have d: "docNullHuge
     = JSONText (JObject [(''auths'', JObject [redhatEntry, (''quay.io/rhceph-dev'', JNull)]),
                          (''n'', JNumber 1 999)])"
    by (simp add: docNullHuge_def)
  have m: "map_of (rev [redhatEntry, (''quay.io/rhceph-dev'', JNull)]) ''quay.io/rhceph-dev''
       = Some JNull"
    by (simp add: redhatEntry_def)
  have r: "addRHCEPHAuth (worldA\<lparr>ocGetPullSecret := Some docNullHuge\<rparr>)
        ''cluster'' ''/tmp/cluster-kubeconfig-123'' ''xyz''
      = ([getPullSecretCmd ''/tmp/cluster-kubeconfig-123'',
          WriteFile ''cluster-pull-secret.json'' docNullHuge],
         Some ErrorParsingPullSecretJSON)"
    "addRHCEPHAuth (worldNull\<lparr>writeFile := (\<lambda>f. False)\<rparr>)
        ''cluster'' ''/tmp/cluster-kubeconfig-123'' ''xyz''
      = ([getPullSecretCmd ''/tmp/cluster-kubeconfig-123'',
          WriteFile ''cluster-pull-secret.json'' docNull],
         Some ErrorWritingPullSecret)"
    by (simp_all add: run_simps)
  show ?thesis
    by (intro conjI d m r)
qed

text \<open>
  C10, amended. For every pull-secret document that \<^verbatim>\<open>json.Unmarshal\<close> decodes (a
  JSON mapping with no number out of the range of \<^verbatim>\<open>float64\<close> and no nesting deeper
  than the limit of the decoder) and whose auths mapping binds the key
  \<^verbatim>\<open>quay.io/rhceph-dev\<close> to \<^verbatim>\<open>null\<close>, the already-present check treats the key as
  absent: once the snapshot of the document is written, the no-op branch is not taken
  (its log record is not written), the registry login is the next call and, when it
  succeeds, the merge is the call after it.
\<close>

theorem null_entry_treated_as_absent:
  assumes "ocGetPullSecret w = Some (JSONText (JObject kvs))"
    and "decodes (JObject kvs)"
    and "map_of (rev kvs) ''auths'' = Some (JObject auths)"
    and "map_of (rev auths) ''quay.io/rhceph-dev'' = Some JNull"
    and "writeFile w (c @ ''-pull-secret.json'')"
  shows "(\<exists>rest. fst (addRHCEPHAuth w c k p)
            = [getPullSecretCmd k,
               WriteFile (c @ ''-pull-secret.json'') (JSONText (JObject kvs)),
               registryLoginCmd p (c @ ''-append-pull-secret.json'') k] @ rest
            \<and> (ocRegistryLogin w \<longrightarrow>
                 (\<exists>rest'. rest
                    = mergeCmd (c @ ''-pull-secret.json'') (c @ ''-append-pull-secret.json'')
                      # rest')))
       \<and> registryLoginCmd p (c @ ''-append-pull-secret.json'') k
           \<in> set (fst (addRHCEPHAuth w c k p))
       \<and> Slog LevelInfo ''RHCEPH auth already exists in pull secret''
           \<notin> set (fst (addRHCEPHAuth w c k p))
       \<and> (ocRegistryLogin w \<longrightarrow>
            mergeCmd (c @ ''-pull-secret.json'') (c @ ''-append-pull-secret.json'')
              \<in> set (fst (addRHCEPHAuth w c k p)))"
proof -
  have u: "unmarshal (JSONText (JObject kvs)) = Some kvs"
    using assms(2) by (rule unmarshal_decodes)
  have a: "index kvs ''auths'' = JObject auths"
    using assms(3) by (rule index_present)
  have b: "index auths ''quay.io/rhceph-dev'' = JNull"
    using assms(4) by (rule index_present)
  have pre: "\<exists>rest. fst (addRHCEPHAuth w c k p)
            = [getPullSecretCmd k,
               WriteFile (c @ ''-pull-secret.json'') (JSONText (JObject kvs)),
               registryLoginCmd p (c @ ''-append-pull-secret.json'') k] @ rest
            \<and> (ocRegistryLogin w \<longrightarrow>
                 (\<exists>rest'. rest
                    = mergeCmd (c @ ''-pull-secret.json'') (c @ ''-append-pull-secret.json'')
                      # rest'))"
    using assms(1,5) a b
    by (simp add: addRHCEPHAuth_def Let_def u del: unmarshal.simps split: option.splits)
  have rest: "registryLoginCmd p (c @ ''-append-pull-secret.json'') k
           \<in> set (fst (addRHCEPHAuth w c k p))
       \<and> Slog LevelInfo ''RHCEPH auth already exists in pull secret''
           \<notin> set (fst (addRHCEPHAuth w c k p))
       \<and> (ocRegistryLogin w \<longrightarrow>
            mergeCmd (c @ ''-pull-secret.json'') (c @ ''-append-pull-secret.json'')
              \<in> set (fst (addRHCEPHAuth w c k p)))"
    using assms(1,5) a b
    by (auto simp: addRHCEPHAuth_def Let_def u getPullSecretCmd_def registryLoginCmd_def
        mergeCmd_def updateCmd_def simp del: unmarshal.simps split: option.splits)
  from pre rest show ?thesis
    by (rule conjI)
qed

theorem null_entry_treated_as_absent_witness:
  "ocGetPullSecret worldNull
     = Some (JSONText (JObject [(''auths'',
         JObject [redhatEntry, (''quay.io/rhceph-dev'', JNull)])]))
   \<and> decodes (JObject [(''auths'', JObject [redhatEntry, (''quay.io/rhceph-dev'', JNull)])])
   \<and> map_of (rev [(''auths'', JObject [redhatEntry, (''quay.io/rhceph-dev'', JNull)])]) ''auths''
       = Some (JObject [redhatEntry, (''quay.io/rhceph-dev'', JNull)])
   \<and> map_of (rev [redhatEntry, (''quay.io/rhceph-dev'', JNull)]) ''quay.io/rhceph-dev''
       = Some JNull
   \<and> writeFile worldNull (''cluster'' @ ''-pull-secret.json'')
   \<and> ocRegistryLogin worldNull
   \<and> registryLoginCmd ''xyz'' (''cluster'' @ ''-append-pull-secret.json'')
         ''/tmp/cluster-kubeconfig-123''
       \<in> set (fst (addRHCEPHAuth worldNull ''cluster'' ''/tmp/cluster-kubeconfig-123'' ''xyz''))
   \<and> Slog LevelInfo ''RHCEPH auth already exists in pull secret''
       \<notin> set (fst (addRHCEPHAuth worldNull ''cluster'' ''/tmp/cluster-kubeconfig-123'' ''xyz''))
   \<and> mergeCmd (''cluster'' @ ''-pull-secret.json'') (''cluster'' @ ''-append-pull-secret.json'')
       \<in> set (fst (addRHCEPHAuth worldNull ''cluster'' ''/tmp/cluster-kubeconfig-123'' ''xyz''))"
proof -
  have h: "ocGetPullSecret worldNull
     = Some (JSONText (JObject [(''auths'',
         JObject [redhatEntry, (''quay.io/rhceph-dev'', JNull)])]))"
    "decodes (JObject [(''auths'', JObject [redhatEntry, (''quay.io/rhceph-dev'', JNull)])])"
    "map_of (rev [(''auths'', JObject [redhatEntry, (''quay.io/rhceph-dev'', JNull)])]) ''auths''
       = Some (JObject [redhatEntry, (''quay.io/rhceph-dev'', JNull)])"
    "map_of (rev [redhatEntry, (''quay.io/rhceph-dev'', JNull)]) ''quay.io/rhceph-dev''
       = Some JNull"
    "writeFile worldNull (''cluster'' @ ''-pull-secret.json'')"
    by (simp_all add: example_defs docNull_def)
  have l: "ocRegistryLogin worldNull"
    by (simp add: example_defs)
  note t = null_entry_treated_as_absent
    [where p = "''xyz''" and k = "''/tmp/cluster-kubeconfig-123''", OF h, THEN conjunct2]
  show ?thesis
    by (intro conjI h l t [THEN conjunct1] t [THEN conjunct2, THEN conjunct1]
        t [THEN conjunct2, THEN conjunct2, rule_format, OF l])
qed

subsection \<open>The orchestrator\<close>

lemma flagParse_exit:
  "flagParse formal actual args = Inl exit \<Longrightarrow>
     exit = ([FlagUsage], 0) \<or> (\<exists>msg. exit = ([Stderr msg, FlagUsage], 2))"
proof (induction formal actual args rule: flagParse.induct)
  case (1 formal actual args)
  from "1.prems" show ?case
    unfolding flagParse.simps [of formal actual args]
    by (cases "parseOne formal actual args") (auto simp: "1.IH")
qed

lemmas flagParse_run = flagParse.simps parseOne_def nameValue_def Let_def

lemma flagParse_argsA: "flagParse definedFlags Map.empty argsA = Inr flagsA"
  by (simp add: argsA_def flagsA_def flagParse_run)

lemma flagsA_flags:
  "flagString flagsA ''url'' [] = ''api.cluster.example.com:6443''"
  "flagString flagsA ''username'' ''kubeadmin'' = ''kubeadmin''"
  "flagString flagsA ''password'' [] = ''abc''"
  "flagString flagsA ''rhceph-password'' [] = ''xyz''"
  by (simp_all add: flagString_def flagsA_def)

lemma checkRequiredCommands_events:
  "e \<in> set (fst (checkRequiredCommands w)) \<Longrightarrow> e = LookPath ''jq'' \<or> e = LookPath ''oc''"
  by (auto simp: checkRequiredCommands_def checkCommandExists_def split: if_splits)

lemma getKubeconfig_events:
  "fst (getKubeconfig w c) = [CreateTemp [] (c @ ''-kubeconfig-*'')]"
  by (simp add: getKubeconfig_def)

lemma login_events:
  "fst (login w url user pw k)
     = [Slog LevelInfo ''logging in using kubeconfig'',
        Exec ''oc'' [''login'', url, ''-u'', user, ''-p'', pw] [''KUBECONFIG='' @ k]]"
  by (simp add: login_def)

lemma addRHCEPHAuth_events:
  "e \<in> set (fst (addRHCEPHAuth w c k p)) \<Longrightarrow>
     e = getPullSecretCmd k
     \<or> (\<exists>b. e = WriteFile (c @ ''-pull-secret.json'') b)
     \<or> e = Slog LevelInfo ''RHCEPH auth already exists in pull secret''
     \<or> e = registryLoginCmd p (c @ ''-append-pull-secret.json'') k
     \<or> e = mergeCmd (c @ ''-pull-secret.json'') (c @ ''-append-pull-secret.json'')
     \<or> (\<exists>b. e = WriteFile (c @ ''-new-pull-secret.json'') b)
     \<or> e = updateCmd (c @ ''-new-pull-secret.json'') k"
  by (auto simp: addRHCEPHAuth_def Let_def simp del: unmarshal.simps
      split: option.splits if_splits)


lemma addICSP_events:
  "e \<in> set (fst (addICSP icsp w c k)) \<Longrightarrow>
     e = WriteFile (c @ ''-icsp.yaml'') icsp
     \<or> e = Exec ''oc'' [''apply'', ''-f'', c @ ''-icsp.yaml''] [''KUBECONFIG='' @ k]"
  by (auto simp: addICSP_def Let_def split: if_splits)


lemma addCatalogSource_events:
  "e \<in> set (fst (addCatalogSource w c k cat)) \<Longrightarrow>
     e = WriteFile (c @ ''-catalogsource.yaml'') cat
     \<or> e = Exec ''oc'' [''apply'', ''-f'', c @ ''-catalogsource.yaml''] [''KUBECONFIG='' @ k]"
  by (auto simp: addCatalogSource_def Let_def split: if_splits)

lemma main_flag_exit:
  "flagParse definedFlags Map.empty arguments = Inl exit \<Longrightarrow>
     main icsp cat w arguments = exit"
  by (simp add: main_def)

lemma main_missing_flag:
  assumes "flagParse definedFlags Map.empty arguments = Inr flags"
    and "flagString flags ''url'' [] = [] \<or> flagString flags ''password'' [] = []
           \<or> flagString flags ''rhceph-password'' [] = []"
  shows "main icsp cat w arguments =
           ([Slog LevelError
               (if flagString flags ''url'' [] = [] then ''error: URL is required''
                else if flagString flags ''password'' [] = [] then ''error: password is required''
                else ''error: RHCEPH password is required''),
             Println ''Usage: ./odfdr-installer -url <URL> -username <username> -password <password> -rhceph-password <password>'',
             Println ''Example: ./odfdr-installer -url ./odfdr-installer -url api.cluster.example.com:6443 -password abc -rhceph-password=xyz''],
            1)"
  using assms(2) by (auto simp: main_def assms(1) Let_def showUsageAndExit_def showUsage_def)

text \<open>
  Past \<^verbatim>\<open>flag.Parse\<close> and the checks of the flags, the commands, the cluster name and
  the kubeconfig file, \<open>main\<close> is the chain of the four steps.
\<close>

lemma main_after_checks:
  assumes "flagParse definedFlags Map.empty arguments = Inr flags"
    and "flagString flags ''url'' [] = url" "url \<noteq> []"
    and "flagString flags ''username'' ''kubeadmin'' = user"
    and "flagString flags ''password'' [] = pw" "pw \<noteq> []"
    and "flagString flags ''rhceph-password'' [] = rp" "rp \<noteq> []"
    and "checkRequiredCommands w = (t0, None)"
    and "getClusterName url = Inr c"
    and "getKubeconfig w c = (t1, Inr k)"
  shows "main icsp cat w arguments =
     (case login w url user pw k of
        (t2, Some err) \<Rightarrow>
          (t0 @ t1 @ t2 @ [Slog LevelError ''error logging into OpenShift''], 1)
      | (t2, None) \<Rightarrow>
     (case addRHCEPHAuth w c k rp of
        (t3, Some err) \<Rightarrow>
          (t0 @ t1 @ t2 @ t3 @ [Slog LevelError ''error adding RHCEPH auth to pull secret''], 1)
      | (t3, None) \<Rightarrow>
     (case addICSP icsp w c k of
        (t4, Some err) \<Rightarrow>
          (t0 @ t1 @ t2 @ t3 @ t4 @ [Slog LevelError ''error adding ICSP''], 1)
      | (t4, None) \<Rightarrow>
     (case addCatalogSource w c k cat of
        (t5, Some err) \<Rightarrow>
          (t0 @ t1 @ t2 @ t3 @ t4 @ t5 @ [Slog LevelError ''error adding CatalogSource''], 1)
      | (t5, None) \<Rightarrow> (t0 @ t1 @ t2 @ t3 @ t4 @ t5, 0)))))"
  using assms(2-) by (simp add: main_def assms(1) Let_def split: prod.splits option.splits)

lemma main_in_order:
  assumes "flagParse definedFlags Map.empty arguments = Inr flags"
    and "flagString flags ''url'' [] = url" "url \<noteq> []"
    and "flagString flags ''username'' ''kubeadmin'' = user"
    and "flagString flags ''password'' [] = pw" "pw \<noteq> []"
    and "flagString flags ''rhceph-password'' [] = rp" "rp \<noteq> []"
    and "checkRequiredCommands w = (t0, None)"
    and "getClusterName url = Inr c"
    and "getKubeconfig w c = (t1, Inr k)"
    and "steps = [login w url user pw k, addRHCEPHAuth w c k rp, addICSP icsp w c k,
                  addCatalogSource w c k cat]"
  shows "snd (main icsp cat w arguments) = (if snd (inOrder steps) = None then 0 else 1)"
    and "\<exists>tail. fst (main icsp cat w arguments) = t0 @ t1 @ fst (inOrder steps) @ tail
           \<and> (if snd (inOrder steps) = None then tail = []
               else \<exists>msg. tail = [Slog LevelError msg])"
proof -
  obtain t2 r2 where L: "login w url user pw k = (t2, r2)" by (cases "login w url user pw k")
  obtain t3 r3 where M: "addRHCEPHAuth w c k rp = (t3, r3)" by (cases "addRHCEPHAuth w c k rp")
  obtain t4 r4 where I: "addICSP icsp w c k = (t4, r4)" by (cases "addICSP icsp w c k")
  obtain t5 r5 where C: "addCatalogSource w c k cat = (t5, r5)"
    by (cases "addCatalogSource w c k cat")
  note run = main_after_checks [OF assms(1-11), where icsp = icsp and cat = cat]
  show "snd (main icsp cat w arguments) = (if snd (inOrder steps) = None then 0 else 1)"
    unfolding run assms(12) L M I C
    by (cases r2; cases r3; cases r4; cases r5) simp_all
  show "\<exists>tail. fst (main icsp cat w arguments) = t0 @ t1 @ fst (inOrder steps) @ tail
           \<and> (if snd (inOrder steps) = None then tail = []
               else \<exists>msg. tail = [Slog LevelError msg])"
    unfolding run assms(12) L M I C
    by (cases r2; cases r3; cases r4; cases r5) simp_all
qed

text \<open>Every run of \<open>main\<close> ends in one of six ways.\<close>

lemma main_cases:
  obtains (parse) exit where
      "flagParse definedFlags Map.empty arguments = Inl exit"
      "main icsp cat w arguments = exit"
  | (usage) flags msg where
      "flagParse definedFlags Map.empty arguments = Inr flags"
      "flagString flags ''url'' [] = [] \<or> flagString flags ''password'' [] = []
         \<or> flagString flags ''rhceph-password'' [] = []"
      "main icsp cat w arguments = (Slog LevelError msg # showUsage, 1)"
  | (commands) flags t0 err where
      "flagParse definedFlags Map.empty arguments = Inr flags"
      "checkRequiredCommands w = (t0, Some err)"
      "main icsp cat w arguments
         = (t0 @ [Slog LevelError ''error checking required commands''], 1)"
  | (name) flags t0 where
      "flagParse definedFlags Map.empty arguments = Inr flags"
      "checkRequiredCommands w = (t0, None)"
      "main icsp cat w arguments
         = (t0 @ [Slog LevelError ''error getting cluster name''], 1)"
  | (kubeconfig) flags t0 c t1 where
      "flagParse definedFlags Map.empty arguments = Inr flags"
      "checkRequiredCommands w = (t0, None)"
      "getClusterName (flagString flags ''url'' []) = Inr c"
      "main icsp cat w arguments
         = (t0 @ t1 @ [Slog LevelError ''error creating kubeconfig file''], 1)"
      "fst (getKubeconfig w c) = t1"
  | (steps) flags t0 c t1 k where
      "flagParse definedFlags Map.empty arguments = Inr flags"
      "flagString flags ''url'' [] \<noteq> []" "flagString flags ''password'' [] \<noteq> []"
      "flagString flags ''rhceph-password'' [] \<noteq> []"
      "checkRequiredCommands w = (t0, None)"
      "getClusterName (flagString flags ''url'' []) = Inr c"
      "getKubeconfig w c = (t1, Inr k)"
proof (cases "flagParse definedFlags Map.empty arguments")
  case (Inl exit)
  then show ?thesis
    using parse by (simp add: main_def)
next
  case (Inr flags)
  show ?thesis
  proof (cases "flagString flags ''url'' [] = [] \<or> flagString flags ''password'' [] = []
         \<or> flagString flags ''rhceph-password'' [] = []")
    case True
    from main_missing_flag [OF Inr True, of icsp cat w] show ?thesis
      using usage [OF Inr True] by (simp add: showUsage_def)
  next
    case False
    then have ne: "flagString flags ''url'' [] \<noteq> []" "flagString flags ''password'' [] \<noteq> []"
      "flagString flags ''rhceph-password'' [] \<noteq> []"
      by simp_all
    obtain t0 r0 where c0: "checkRequiredCommands w = (t0, r0)"
      by (cases "checkRequiredCommands w")
    show ?thesis
    proof (cases r0)
      case (Some err)
      show ?thesis
        by (rule commands [OF Inr c0 [unfolded Some]])
          (simp add: main_def Inr Let_def ne c0 Some)
    next
      case None
      note c0 = c0 [unfolded None]
      show ?thesis
      proof (cases "getClusterName (flagString flags ''url'' [])")
        case (Inl err)
        show ?thesis
          by (rule name [OF Inr c0]) (simp add: main_def Inr Let_def ne c0 Inl)
      next
        case c: (Inr c)
        obtain t1 r1 where k: "getKubeconfig w c = (t1, r1)"
          by (cases "getKubeconfig w c")
        show ?thesis
        proof (cases r1)
          case (Inl err)
          show ?thesis
            by (rule kubeconfig [OF Inr c0 c, of t1])
              (simp_all add: main_def Inr Let_def ne c0 c k Inl)
        next
          case k': (Inr kc)
          show ?thesis
            by (rule steps [OF Inr ne c0 c k [unfolded k']])
        qed
      qed
    qed
  qed
qed


text \<open>The checks of \<open>main\<close> in the example world.\<close>

lemma commands_found:
  "lookPath w ''jq'' \<Longrightarrow> lookPath w ''oc'' \<Longrightarrow>
     checkRequiredCommands w = ([LookPath ''jq'', LookPath ''oc''], None)"
  by (simp add: checkRequiredCommands_def checkCommandExists_def)

lemma cluster_name: "getClusterName ''api.cluster.example.com:6443'' = Inr ''cluster''"
  by (simp add: getClusterName_def)

lemma kubeconfig_created:
  "tempDir w = ''/tmp'' \<Longrightarrow> nextRandom w = Some ''123'' \<Longrightarrow>
     getKubeconfig w ''cluster''
       = ([CreateTemp [] ''cluster-kubeconfig-*''], Inr ''/tmp/cluster-kubeconfig-123'')"
  by (simp add: getKubeconfig_def os_CreateTemp_def prefixAndSuffix_def joinPath_def)

lemma inOrder_Cons:
  "inOrder (s # steps) =
     (case snd s of
        Some err \<Rightarrow> (fst s, Some err)
      | None \<Rightarrow> (fst s @ fst (inOrder steps), snd (inOrder steps)))"
  by (cases s; cases "snd s") auto


lemma inOrder_first: "\<exists>rest. fst (inOrder (s # steps)) = fst s @ rest"
  by (cases s; cases "snd s") auto

text \<open>
  C6, as stated: in every invocation in which a required flag is empty, the usage
  message is printed to standard output and the exit status is not zero. With the
  command line \<^verbatim>\<open>-h\<close> no flag is set when \<^verbatim>\<open>flag.Parse\<close> ends the run: the usage
  message of the \<^verbatim>\<open>flag\<close> package goes to standard error, nothing is printed to
  standard output, and the exit status is 0. With \<^verbatim>\<open>-url\<close> alone the run ends in
  \<^verbatim>\<open>flag.Parse\<close> too, with status 2 and nothing on standard output.
\<close>

theorem usage_counterexample:
  "parseOne definedFlags Map.empty [''-h''] = ErrHelp
   \<and> main icspA catalogSourceA worldA [''-h''] = ([FlagUsage], 0)
   \<and> parseOne definedFlags Map.empty [''-url''] = Failf ''flag needs an argument: -url''
   \<and> main icspA catalogSourceA worldA [''-url'']
       = ([Stderr ''flag needs an argument: -url'', FlagUsage], 2)"
  by (simp add: main_def flagParse_run)

text \<open>
  C6, amended. For every invocation whose command line \<^verbatim>\<open>flag.Parse\<close> accepts and in
  which one of the required flags \<^verbatim>\<open>--url\<close>, \<^verbatim>\<open>--password\<close>, \<^verbatim>\<open>--rhceph-password\<close>
  is empty (not given, or given as the empty string), the program logs which flag is
  required (the first empty one), prints the two lines of its usage message to standard
  output and exits with status 1: the trace holds nothing else, so no command is looked
  up or run and no file is created. The \<^verbatim>\<open>--username\<close> flag is optional: when it is
  not given and the checks pass, the first call after them is the login as
  \<^verbatim>\<open>kubeadmin\<close>.
\<close>

theorem main_usage_when_flag_missing:
  "(flagParse definedFlags Map.empty arguments = Inr flags
     \<and> (flagString flags ''url'' [] = [] \<or> flagString flags ''password'' [] = []
        \<or> flagString flags ''rhceph-password'' [] = []) \<longrightarrow>
       main icsp cat w arguments =
         ([Slog LevelError
             (if flagString flags ''url'' [] = [] then ''error: URL is required''
              else if flagString flags ''password'' [] = [] then ''error: password is required''
              else ''error: RHCEPH password is required''),
           Println ''Usage: ./odfdr-installer -url <URL> -username <username> -password <password> -rhceph-password <password>'',
           Println ''Example: ./odfdr-installer -url ./odfdr-installer -url api.cluster.example.com:6443 -password abc -rhceph-password=xyz''],
          1))
   \<and> (flagParse definedFlags Map.empty arguments = Inr flags
       \<and> flags ''username'' = None
       \<and> flagString flags ''url'' [] = url \<and> url \<noteq> []
       \<and> flagString flags ''password'' [] = pw \<and> pw \<noteq> []
       \<and> flagString flags ''rhceph-password'' [] = rp \<and> rp \<noteq> []
       \<and> checkRequiredCommands w = (t0, None) \<and> getClusterName url = Inr c
       \<and> getKubeconfig w c = (t1, Inr k) \<longrightarrow>
       (\<exists>rest. fst (main icsp cat w arguments)
          = t0 @ t1
            @ [Slog LevelInfo ''logging in using kubeconfig'',
               Exec ''oc'' [''login'', url, ''-u'', ''kubeadmin'', ''-p'', pw]
                 [''KUBECONFIG='' @ k]]
            @ rest))"
proof -
  have usage: "flagParse definedFlags Map.empty arguments = Inr flags
     \<and> (flagString flags ''url'' [] = [] \<or> flagString flags ''password'' [] = []
        \<or> flagString flags ''rhceph-password'' [] = []) \<longrightarrow>
       main icsp cat w arguments =
         ([Slog LevelError
             (if flagString flags ''url'' [] = [] then ''error: URL is required''
              else if flagString flags ''password'' [] = [] then ''error: password is required''
              else ''error: RHCEPH password is required''),
           Println ''Usage: ./odfdr-installer -url <URL> -username <username> -password <password> -rhceph-password <password>'',
           Println ''Example: ./odfdr-installer -url ./odfdr-installer -url api.cluster.example.com:6443 -password abc -rhceph-password=xyz''],
          1)"
  proof
    assume h: "flagParse definedFlags Map.empty arguments = Inr flags
     \<and> (flagString flags ''url'' [] = [] \<or> flagString flags ''password'' [] = []
        \<or> flagString flags ''rhceph-password'' [] = [])"
    show "main icsp cat w arguments =
         ([Slog LevelError
             (if flagString flags ''url'' [] = [] then ''error: URL is required''
              else if flagString flags ''password'' [] = [] then ''error: password is required''
              else ''error: RHCEPH password is required''),
           Println ''Usage: ./odfdr-installer -url <URL> -username <username> -password <password> -rhceph-password <password>'',
           Println ''Example: ./odfdr-installer -url ./odfdr-installer -url api.cluster.example.com:6443 -password abc -rhceph-password=xyz''],
          1)"
      by (rule main_missing_flag [OF h [THEN conjunct1] h [THEN conjunct2]])
  qed
  have default: "flagParse definedFlags Map.empty arguments = Inr flags
       \<and> flags ''username'' = None
       \<and> flagString flags ''url'' [] = url \<and> url \<noteq> []
       \<and> flagString flags ''password'' [] = pw \<and> pw \<noteq> []
       \<and> flagString flags ''rhceph-password'' [] = rp \<and> rp \<noteq> []
       \<and> checkRequiredCommands w = (t0, None) \<and> getClusterName url = Inr c
       \<and> getKubeconfig w c = (t1, Inr k) \<longrightarrow>
       (\<exists>rest. fst (main icsp cat w arguments)
          = t0 @ t1
            @ [Slog LevelInfo ''logging in using kubeconfig'',
               Exec ''oc'' [''login'', url, ''-u'', ''kubeadmin'', ''-p'', pw]
                 [''KUBECONFIG='' @ k]]
            @ rest)"
  proof
    assume h: "flagParse definedFlags Map.empty arguments = Inr flags
       \<and> flags ''username'' = None
       \<and> flagString flags ''url'' [] = url \<and> url \<noteq> []
       \<and> flagString flags ''password'' [] = pw \<and> pw \<noteq> []
       \<and> flagString flags ''rhceph-password'' [] = rp \<and> rp \<noteq> []
       \<and> checkRequiredCommands w = (t0, None) \<and> getClusterName url = Inr c
       \<and> getKubeconfig w c = (t1, Inr k)"
    then have p: "flagParse definedFlags Map.empty arguments = Inr flags"
      and u: "flags ''username'' = None"
      and f: "flagString flags ''url'' [] = url" "url \<noteq> []"
        "flagString flags ''password'' [] = pw" "pw \<noteq> []"
        "flagString flags ''rhceph-password'' [] = rp" "rp \<noteq> []"
      and c: "checkRequiredCommands w = (t0, None)" "getClusterName url = Inr c"
        "getKubeconfig w c = (t1, Inr k)"
      by simp_all
    have user: "flagString flags ''username'' ''kubeadmin'' = ''kubeadmin''"
      using u by (simp add: flagString_def)
    from main_in_order(2) [OF p f(1,2) user f(3-6) c refl, where icsp = icsp and cat = cat]
    obtain tail where tr: "fst (main icsp cat w arguments)
        = t0 @ t1 @ fst (inOrder [login w url ''kubeadmin'' pw k, addRHCEPHAuth w c k rp,
             addICSP icsp w c k, addCatalogSource w c k cat]) @ tail"
      by (elim exE conjE)
    from inOrder_first [of "login w url ''kubeadmin'' pw k"
        "[addRHCEPHAuth w c k rp, addICSP icsp w c k, addCatalogSource w c k cat]"]
    obtain rest where "fst (inOrder [login w url ''kubeadmin'' pw k, addRHCEPHAuth w c k rp,
             addICSP icsp w c k, addCatalogSource w c k cat])
        = fst (login w url ''kubeadmin'' pw k) @ rest"
      by (elim exE)
    with tr have "fst (main icsp cat w arguments)
          = t0 @ t1
            @ [Slog LevelInfo ''logging in using kubeconfig'',
               Exec ''oc'' [''login'', url, ''-u'', ''kubeadmin'', ''-p'', pw]
                 [''KUBECONFIG='' @ k]]
            @ (rest @ tail)"
      by (simp add: login_events)
    then show "\<exists>rest. fst (main icsp cat w arguments)
          = t0 @ t1
            @ [Slog LevelInfo ''logging in using kubeconfig'',
               Exec ''oc'' [''login'', url, ''-u'', ''kubeadmin'', ''-p'', pw]
                 [''KUBECONFIG='' @ k]]
            @ rest"
      by (rule exI)
  qed
  from usage default show ?thesis
    by (rule conjI)
qed

theorem main_usage_when_flag_missing_witness:
  "flagParse definedFlags Map.empty
       [''-url'', ''api.cluster.example.com:6443'', ''-rhceph-password=xyz'']
     = Inr [''url'' \<mapsto> ''api.cluster.example.com:6443'', ''rhceph-password'' \<mapsto> ''xyz'']
   \<and> flagString [''url'' \<mapsto> ''api.cluster.example.com:6443'', ''rhceph-password'' \<mapsto> ''xyz'']
        ''password'' [] = []
   \<and> main icspA catalogSourceA worldA
        [''-url'', ''api.cluster.example.com:6443'', ''-rhceph-password=xyz'']
       = ([Slog LevelError ''error: password is required'',
           Println ''Usage: ./odfdr-installer -url <URL> -username <username> -password <password> -rhceph-password <password>'',
           Println ''Example: ./odfdr-installer -url ./odfdr-installer -url api.cluster.example.com:6443 -password abc -rhceph-password=xyz''],
          1)
   \<and> flagParse definedFlags Map.empty argsA = Inr flagsA
   \<and> flagsA ''username'' = None
   \<and> flagString flagsA ''url'' [] = ''api.cluster.example.com:6443''
   \<and> flagString flagsA ''password'' [] = ''abc''
   \<and> flagString flagsA ''rhceph-password'' [] = ''xyz''
   \<and> checkRequiredCommands worldA = ([LookPath ''jq'', LookPath ''oc''], None)
   \<and> getClusterName ''api.cluster.example.com:6443'' = Inr ''cluster''
   \<and> getKubeconfig worldA ''cluster''
       = ([CreateTemp [] ''cluster-kubeconfig-*''], Inr ''/tmp/cluster-kubeconfig-123'')
   \<and> (\<exists>rest. fst (main icspA catalogSourceA worldA argsA)
        = [LookPath ''jq'', LookPath ''oc''] @ [CreateTemp [] ''cluster-kubeconfig-*'']
          @ [Slog LevelInfo ''logging in using kubeconfig'',
             Exec ''oc''
               [''login'', ''api.cluster.example.com:6443'', ''-u'', ''kubeadmin'', ''-p'', ''abc'']
               [''KUBECONFIG='' @ ''/tmp/cluster-kubeconfig-123'']]
          @ rest)"
proof -
  let ?args = "[''-url'', ''api.cluster.example.com:6443'', ''-rhceph-password=xyz'']"
  let ?flags = "[''url'' \<mapsto> ''api.cluster.example.com:6443'', ''rhceph-password'' \<mapsto> ''xyz'']"
  have p: "flagParse definedFlags Map.empty ?args = Inr ?flags"
    by (simp add: flagParse_run)
  have e: "flagString ?flags ''password'' [] = []"
    and ne: "flagString ?flags ''url'' [] \<noteq> []"
    by (simp_all add: flagString_def)
  have u: "flagsA ''username'' = None"
    by (simp add: flagsA_def)
  have c: "checkRequiredCommands worldA = ([LookPath ''jq'', LookPath ''oc''], None)"
    by (rule commands_found) (simp_all add: worldA_def)
  have k: "getKubeconfig worldA ''cluster''
       = ([CreateTemp [] ''cluster-kubeconfig-*''], Inr ''/tmp/cluster-kubeconfig-123'')"
    by (rule kubeconfig_created) (simp_all add: worldA_def)
  from main_usage_when_flag_missing
      [where arguments = ?args and flags = ?flags and icsp = icspA and cat = catalogSourceA
         and w = worldA, THEN conjunct1, rule_format, OF conjI [OF p disjI2 [OF disjI1 [OF e]]]]
  have m: "main icspA catalogSourceA worldA ?args
       = ([Slog LevelError ''error: password is required'',
           Println ''Usage: ./odfdr-installer -url <URL> -username <username> -password <password> -rhceph-password <password>'',
           Println ''Example: ./odfdr-installer -url ./odfdr-installer -url api.cluster.example.com:6443 -password abc -rhceph-password=xyz''],
          1)"
    using e ne by simp
  have h: "flagParse definedFlags Map.empty argsA = Inr flagsA
       \<and> flagsA ''username'' = None
       \<and> flagString flagsA ''url'' [] = ''api.cluster.example.com:6443''
       \<and> ''api.cluster.example.com:6443'' \<noteq> []
       \<and> flagString flagsA ''password'' [] = ''abc'' \<and> ''abc'' \<noteq> []
       \<and> flagString flagsA ''rhceph-password'' [] = ''xyz'' \<and> ''xyz'' \<noteq> []
       \<and> checkRequiredCommands worldA = ([LookPath ''jq'', LookPath ''oc''], None)
       \<and> getClusterName ''api.cluster.example.com:6443'' = Inr ''cluster''
       \<and> getKubeconfig worldA ''cluster''
           = ([CreateTemp [] ''cluster-kubeconfig-*''], Inr ''/tmp/cluster-kubeconfig-123'')"
    by (simp add: flagParse_argsA u flagsA_flags c cluster_name k)
  note l = main_usage_when_flag_missing
      [where icsp = icspA and cat = catalogSourceA, THEN conjunct2, rule_format, OF h]
  show ?thesis
    by (intro conjI p e m flagParse_argsA u flagsA_flags c cluster_name k l)
qed




text \<open>A run that has not passed every check runs no command and writes no file.\<close>

lemma main_effect:
  assumes "e \<in> set (fst (main icsp cat w arguments))"
    and "(\<exists>n a env. e = Exec n a env) \<or> (\<exists>f b. e = WriteFile f b)"
  shows "\<exists>flags t0 c t1 k.
           flagParse definedFlags Map.empty arguments = Inr flags
           \<and> flagString flags ''url'' [] \<noteq> [] \<and> flagString flags ''password'' [] \<noteq> []
           \<and> flagString flags ''rhceph-password'' [] \<noteq> []
           \<and> checkRequiredCommands w = (t0, None)
           \<and> getClusterName (flagString flags ''url'' []) = Inr c
           \<and> getKubeconfig w c = (t1, Inr k)"
proof (cases rule: main_cases [where arguments = arguments and w = w and icsp = icsp and cat = cat])
  case (parse exit)
  from flagParse_exit [OF parse(1)] assms show ?thesis
    unfolding parse(2) by (elim disjE exE) auto
next
  case (usage flags msg)
  with assms show ?thesis
    by (auto simp: showUsage_def)
next
  case (commands flags t0 err)
  from assms commands(3) have "e \<in> set (fst (checkRequiredCommands w))"
    unfolding commands(2) by auto
  from checkRequiredCommands_events [OF this] assms(2) show ?thesis
    by auto
next
  case (name flags t0)
  from assms name(3) have "e \<in> set (fst (checkRequiredCommands w))"
    unfolding name(2) by auto
  from checkRequiredCommands_events [OF this] assms(2) show ?thesis
    by auto
next
  case (kubeconfig flags t0 c t1)
  from assms kubeconfig(4) have "e \<in> set (fst (checkRequiredCommands w)) \<or> e \<in> set t1"
    unfolding kubeconfig(2) by auto
  then show ?thesis
  proof
    assume "e \<in> set (fst (checkRequiredCommands w))"
    from checkRequiredCommands_events [OF this] assms(2) show ?thesis
      by auto
  next
    assume "e \<in> set t1"
    with assms(2) show ?thesis
      unfolding kubeconfig(5) [symmetric] getKubeconfig_events by auto
  qed
next
  case (steps flags t0 c t1 k)
  then show ?thesis
    by (intro exI [of _ flags] exI [of _ t0] exI [of _ c] exI [of _ t1] exI [of _ k]) simp
qed









lemma inOrder_events:
  "e \<in> set (fst (inOrder steps)) \<Longrightarrow> \<exists>s \<in> set steps. e \<in> set (fst s)"
  by (induction steps rule: inOrder.induct) auto

lemma steps_events:
  assumes "flagParse definedFlags Map.empty arguments = Inr flags"
    and "flagString flags ''url'' [] = url" "url \<noteq> []"
    and "flagString flags ''username'' ''kubeadmin'' = user"
    and "flagString flags ''password'' [] = pw" "pw \<noteq> []"
    and "flagString flags ''rhceph-password'' [] = rp" "rp \<noteq> []"
    and "checkRequiredCommands w = (t0, None)"
    and "getClusterName url = Inr c"
    and "getKubeconfig w c = (t1, Inr k)"
    and "e \<in> set (fst (main icsp cat w arguments))"
  shows "e \<in> set t0 \<or> e \<in> set t1 \<or> e \<in> set (fst (login w url user pw k))
       \<or> e \<in> set (fst (addRHCEPHAuth w c k rp)) \<or> e \<in> set (fst (addICSP icsp w c k))
       \<or> e \<in> set (fst (addCatalogSource w c k cat)) \<or> (\<exists>msg. e = Slog LevelError msg)"
proof -
  let ?steps = "[login w url user pw k, addRHCEPHAuth w c k rp, addICSP icsp w c k,
      addCatalogSource w c k cat]"
  from main_in_order(2) [OF assms(1-11) refl, where icsp = icsp and cat = cat]
  obtain tail where tr: "fst (main icsp cat w arguments) = t0 @ t1 @ fst (inOrder ?steps) @ tail"
    and tail: "tail = [] \<or> (\<exists>msg. tail = [Slog LevelError msg])"
    by (cases "snd (inOrder ?steps) = None") auto
  from assms(12) have "e \<in> set t0 \<or> e \<in> set t1 \<or> e \<in> set (fst (inOrder ?steps))
      \<or> e \<in> set tail"
    unfolding tr by auto
  then show ?thesis
  proof (elim disjE)
    assume "e \<in> set (fst (inOrder ?steps))"
    from inOrder_events [OF this] show ?thesis
      by auto
  next
    assume "e \<in> set tail"
    with tail show ?thesis
      by auto
  qed simp_all
qed

lemma getKubeconfig_ok:
  assumes "snd (getKubeconfig w c) = Inr k"
  shows "CHR ''/'' \<notin> set c
       \<and> (\<exists>r. nextRandom w = Some r \<and> k = joinPath (tempDir w) (c @ ''-kubeconfig-'') @ r)"
  using assms
  by (auto simp: getKubeconfig_def os_CreateTemp_def prefixAndSuffix_def
      split: option.splits if_splits)

lemma dirOf_joinPath:
  assumes "d \<noteq> []" "last d \<noteq> CHR ''/''" "CHR ''/'' \<notin> set name"
  shows "dirOf (joinPath d name) = d"
proof -
  have a: "dropWhile (\<lambda>c. c \<noteq> CHR ''/'') (rev name) = []"
    using assms(3) by (auto simp: dropWhile_eq_Nil_conv)
  show ?thesis
    using assms(1,2) by (simp add: dirOf_def joinPath_def dropWhile_append3 a)
qed

lemma addRHCEPHAuth_writes:
  "WriteFile f b \<in> set (fst (addRHCEPHAuth w c k p)) \<Longrightarrow>
     f = c @ ''-pull-secret.json'' \<or> f = c @ ''-new-pull-secret.json''"
  using addRHCEPHAuth_events [of "WriteFile f b" w c k p]
  by (auto simp: getPullSecretCmd_def registryLoginCmd_def mergeCmd_def updateCmd_def)

lemma addRHCEPHAuth_registry_login:
  "registryLoginCmd p f k \<in> set (fst (addRHCEPHAuth w c k' p')) \<Longrightarrow>
     f = c @ ''-append-pull-secret.json''"
  using addRHCEPHAuth_events [of "registryLoginCmd p f k" w c k' p']
  by (auto simp: getPullSecretCmd_def registryLoginCmd_def mergeCmd_def updateCmd_def)

lemma addICSP_writes:
  "WriteFile f b \<in> set (fst (addICSP icsp w c k)) \<Longrightarrow> f = c @ ''-icsp.yaml''"
  using addICSP_events [of "WriteFile f b" icsp w c k] by auto

lemma addCatalogSource_writes:
  "WriteFile f b \<in> set (fst (addCatalogSource w c k cat)) \<Longrightarrow> f = c @ ''-catalogsource.yaml''"
  using addCatalogSource_events [of "WriteFile f b" w c k cat] by auto

lemma main_writes:
  assumes "WriteFile f b \<in> set (fst (main icsp cat w arguments))"
  shows "\<exists>flags c k. flagParse definedFlags Map.empty arguments = Inr flags
           \<and> getClusterName (flagString flags ''url'' []) = Inr c
           \<and> snd (getKubeconfig w c) = Inr k
           \<and> (f = c @ ''-pull-secret.json'' \<or> f = c @ ''-new-pull-secret.json''
              \<or> f = c @ ''-icsp.yaml'' \<or> f = c @ ''-catalogsource.yaml'')"
proof -
  let ?e = "WriteFile f b"
  from main_effect [OF assms] obtain flags t0 c t1 k where
    p: "flagParse definedFlags Map.empty arguments = Inr flags"
    and ne: "flagString flags ''url'' [] \<noteq> []" "flagString flags ''password'' [] \<noteq> []"
      "flagString flags ''rhceph-password'' [] \<noteq> []"
    and ck: "checkRequiredCommands w = (t0, None)"
      "getClusterName (flagString flags ''url'' []) = Inr c"
      "getKubeconfig w c = (t1, Inr k)"
    by auto
  have n0: "?e \<notin> set t0"
    using checkRequiredCommands_events [of ?e w] ck(1) by auto
  have n1: "?e \<notin> set t1"
    using getKubeconfig_events [of w c] ck(3) by auto
  from steps_events [OF p refl ne(1) refl refl ne(2) refl ne(3) ck assms] n0 n1
  have "?e \<in> set (fst (addRHCEPHAuth w c k (flagString flags ''rhceph-password'' [])))
      \<or> ?e \<in> set (fst (addICSP icsp w c k)) \<or> ?e \<in> set (fst (addCatalogSource w c k cat))"
    by (simp add: login_events)
  then have "f = c @ ''-pull-secret.json'' \<or> f = c @ ''-new-pull-secret.json''
              \<or> f = c @ ''-icsp.yaml'' \<or> f = c @ ''-catalogsource.yaml''"
  proof (elim disjE)
    assume "?e \<in> set (fst (addRHCEPHAuth w c k (flagString flags ''rhceph-password'' [])))"
    from addRHCEPHAuth_writes [OF this] show ?thesis by (elim disjE) simp_all
  next
    assume "?e \<in> set (fst (addICSP icsp w c k))"
    from addICSP_writes [OF this] show ?thesis by simp
  next
    assume "?e \<in> set (fst (addCatalogSource w c k cat))"
    from addCatalogSource_writes [OF this] show ?thesis by simp
  qed
  with p ck show ?thesis
    by (intro exI [of _ flags] exI [of _ c] exI [of _ k]) simp
qed

lemma main_registry_login:
  assumes "registryLoginCmd p f k \<in> set (fst (main icsp cat w arguments))"
  shows "\<exists>flags c k'. flagParse definedFlags Map.empty arguments = Inr flags
           \<and> getClusterName (flagString flags ''url'' []) = Inr c
           \<and> snd (getKubeconfig w c) = Inr k'
           \<and> f = c @ ''-append-pull-secret.json''"
proof -
  let ?e = "registryLoginCmd p f k"
  have ex: "(\<exists>n a env. ?e = Exec n a env) \<or> (\<exists>f b. ?e = WriteFile f b)"
    by (simp add: registryLoginCmd_def)
  from main_effect [OF assms ex] obtain flags t0 c t1 k' where
    p: "flagParse definedFlags Map.empty arguments = Inr flags"
    and ne: "flagString flags ''url'' [] \<noteq> []" "flagString flags ''password'' [] \<noteq> []"
      "flagString flags ''rhceph-password'' [] \<noteq> []"
    and ck: "checkRequiredCommands w = (t0, None)"
      "getClusterName (flagString flags ''url'' []) = Inr c"
      "getKubeconfig w c = (t1, Inr k')"
    by auto
  have n0: "?e \<notin> set t0"
    using checkRequiredCommands_events [of ?e w] ck(1) by (auto simp: registryLoginCmd_def)
  have n1: "?e \<notin> set t1"
    using getKubeconfig_events [of w c] ck(3) by (auto simp: registryLoginCmd_def)
  have n4: "?e \<notin> set (fst (addICSP icsp w c k'))"
    using addICSP_events [of ?e icsp w c k'] by (auto simp: registryLoginCmd_def)
  have n5: "?e \<notin> set (fst (addCatalogSource w c k' cat))"
    using addCatalogSource_events [of ?e w c k' cat] by (auto simp: registryLoginCmd_def)
  from steps_events [OF p refl ne(1) refl refl ne(2) refl ne(3) ck assms] n0 n1 n4 n5
  have "?e \<in> set (fst (addRHCEPHAuth w c k' (flagString flags ''rhceph-password'' [])))"
    by (simp add: login_events registryLoginCmd_def)
  then have "f = c @ ''-append-pull-secret.json''"
    by (rule addRHCEPHAuth_registry_login)
  with p ck show ?thesis
    by (intro exI [of _ flags] exI [of _ c] exI [of _ k']) simp
qed

lemma main_create_temp:
  assumes "CreateTemp d pat \<in> set (fst (main icsp cat w arguments))"
  shows "d = [] \<and> (\<exists>flags c. flagParse definedFlags Map.empty arguments = Inr flags
           \<and> getClusterName (flagString flags ''url'' []) = Inr c
           \<and> pat = c @ ''-kubeconfig-*'')"
proof (cases rule: main_cases [where arguments = arguments and w = w and icsp = icsp and cat = cat])
  case (parse exit)
  from flagParse_exit [OF parse(1)] assms show ?thesis
    unfolding parse(2) by (elim disjE exE) auto
next
  case (usage flags msg)
  with assms show ?thesis
    by (auto simp: showUsage_def)
next
  case (commands flags t0 err)
  from assms have "CreateTemp d pat \<in> set (fst (checkRequiredCommands w))"
    unfolding commands(2,3) by auto
  from checkRequiredCommands_events [OF this] show ?thesis
    by auto
next
  case (name flags t0)
  from assms have "CreateTemp d pat \<in> set (fst (checkRequiredCommands w))"
    unfolding name(2,3) by auto
  from checkRequiredCommands_events [OF this] show ?thesis
    by auto
next
  case (kubeconfig flags t0 c t1)
  have n0: "CreateTemp d pat \<notin> set t0"
    using checkRequiredCommands_events [of "CreateTemp d pat" w] kubeconfig(2) by auto
  from assms n0 have "CreateTemp d pat \<in> set (fst (getKubeconfig w c))"
    unfolding kubeconfig(4,5) by auto
  then have "d = [] \<and> pat = c @ ''-kubeconfig-*''"
    unfolding getKubeconfig_events by simp
  with kubeconfig(1,3) show ?thesis
    by (intro conjI exI [of _ flags] exI [of _ c]) simp_all
next
  case (steps flags t0 c t1 k)
  let ?e = "CreateTemp d pat"
  have n0: "?e \<notin> set t0"
    using checkRequiredCommands_events [of ?e w] steps(5) by auto
  have n3: "?e \<notin> set (fst (addRHCEPHAuth w c k (flagString flags ''rhceph-password'' [])))"
    using addRHCEPHAuth_events [of ?e w c k "flagString flags ''rhceph-password'' []"]
    by (auto simp: getPullSecretCmd_def registryLoginCmd_def mergeCmd_def updateCmd_def)
  have n4: "?e \<notin> set (fst (addICSP icsp w c k))"
    using addICSP_events [of ?e icsp w c k] by auto
  have n5: "?e \<notin> set (fst (addCatalogSource w c k cat))"
    using addCatalogSource_events [of ?e w c k cat] by auto
  from steps_events [OF steps(1) refl steps(2) refl refl steps(3) refl steps(4-7) assms]
    n0 n3 n4 n5
  have "?e \<in> set t1"
    by (simp add: login_events)
  then have "d = [] \<and> pat = c @ ''-kubeconfig-*''"
    using getKubeconfig_events [of w c] steps(7) by auto
  with steps(1,6) show ?thesis
    by (intro conjI exI [of _ flags] exI [of _ c]) simp_all
qed

lemma login_reached:
  assumes "flagParse definedFlags Map.empty arguments = Inr flags"
    and "flagString flags ''url'' [] = url" "url \<noteq> []"
    and "flagString flags ''username'' ''kubeadmin'' = user"
    and "flagString flags ''password'' [] = pw" "pw \<noteq> []"
    and "flagString flags ''rhceph-password'' [] = rp" "rp \<noteq> []"
    and "checkRequiredCommands w = (t0, None)"
    and "getClusterName url = Inr c"
    and "getKubeconfig w c = (t1, Inr k)"
  shows "Exec ''oc'' [''login'', url, ''-u'', user, ''-p'', pw] [''KUBECONFIG='' @ k]
           \<in> set (fst (main icsp cat w arguments))"
proof -
  from main_in_order(2) [OF assms refl, where icsp = icsp and cat = cat]
  obtain tail where "fst (main icsp cat w arguments)
      = t0 @ t1 @ fst (inOrder [login w url user pw k, addRHCEPHAuth w c k rp,
           addICSP icsp w c k, addCatalogSource w c k cat]) @ tail"
    by (elim exE conjE)
  then show ?thesis
    by (cases "ocLogin w") (simp_all add: login_def)
qed

text \<open>
  C8, as the specification states it: the kubeconfig file is created in the current
  working directory. It is not: \<open>getKubeconfig\<close> calls \<^verbatim>\<open>os.CreateTemp\<close> with the empty
  string for the directory, so the file is in \<^verbatim>\<open>os.TempDir()\<close>. Here the working
  directory is \<^verbatim>\<open>/home/user\<close>, and the login runs with
  \<^verbatim>\<open>KUBECONFIG=/tmp/cluster-kubeconfig-123\<close>.
\<close>

theorem scratch_files_counterexample:
  "getClusterName ''api.cluster.example.com:6443'' = Inr ''cluster''
   \<and> getKubeconfig worldA ''cluster''
       = ([CreateTemp [] ''cluster-kubeconfig-*''], Inr ''/tmp/cluster-kubeconfig-123'')
   \<and> workDir worldA = ''/home/user''
   \<and> dirOf ''/tmp/cluster-kubeconfig-123'' = ''/tmp''
   \<and> dirOf ''/tmp/cluster-kubeconfig-123'' \<noteq> workDir worldA
   \<and> Exec ''oc'' [''login'', ''api.cluster.example.com:6443'', ''-u'', ''kubeadmin'', ''-p'', ''abc'']
         [''KUBECONFIG=/tmp/cluster-kubeconfig-123'']
       \<in> set (fst (main icspA catalogSourceA worldA argsA))"
proof -
  have k: "getKubeconfig worldA ''cluster''
       = ([CreateTemp [] ''cluster-kubeconfig-*''], Inr ''/tmp/cluster-kubeconfig-123'')"
    by (rule kubeconfig_created) (simp_all add: worldA_def)
  have c: "checkRequiredCommands worldA = ([LookPath ''jq'', LookPath ''oc''], None)"
    by (rule commands_found) (simp_all add: worldA_def)
  have d: "dirOf ''/tmp/cluster-kubeconfig-123'' = ''/tmp''"
    by (simp add: dirOf_def)
  have wd: "workDir worldA = ''/home/user''"
    by (simp add: worldA_def)
  have l: "Exec ''oc'' [''login'', ''api.cluster.example.com:6443'', ''-u'', ''kubeadmin'', ''-p'', ''abc'']
         [''KUBECONFIG='' @ ''/tmp/cluster-kubeconfig-123'']
       \<in> set (fst (main icspA catalogSourceA worldA argsA))"
    by (rule login_reached [OF flagParse_argsA flagsA_flags(1) _ flagsA_flags(2) flagsA_flags(3) _
          flagsA_flags(4) _ c cluster_name k]) simp_all
  from cluster_name k wd d l show ?thesis
    by simp
qed

text \<open>
  C8, amended. In every run, the kubeconfig file is created by \<^verbatim>\<open>os.CreateTemp\<close> in
  the default directory for temporary files, with the pattern
  \<^verbatim>\<open><cluster>-kubeconfig-*\<close>: its name is \<^verbatim>\<open><cluster>-kubeconfig-\<close> followed by the
  random string. The files the program writes are \<^verbatim>\<open><cluster>-pull-secret.json\<close>,
  \<^verbatim>\<open><cluster>-new-pull-secret.json\<close>, \<^verbatim>\<open><cluster>-icsp.yaml\<close> and
  \<^verbatim>\<open><cluster>-catalogsource.yaml\<close>, and the registry login is told to write
  \<^verbatim>\<open><cluster>-append-pull-secret.json\<close>; these names have no directory part, so
  they are files of the current working directory. The cluster name is that of the
  \<^verbatim>\<open>--url\<close> flag that \<^verbatim>\<open>flag.Parse\<close> has set.
\<close>

theorem scratch_files:
  "(\<forall>d pat. CreateTemp d pat \<in> set (fst (main icsp cat w arguments)) \<longrightarrow>
       d = []
       \<and> (\<exists>flags c. flagParse definedFlags Map.empty arguments = Inr flags
            \<and> getClusterName (flagString flags ''url'' []) = Inr c
            \<and> pat = c @ ''-kubeconfig-*''))
   \<and> (\<forall>c k. snd (getKubeconfig w c) = Inr k \<longrightarrow>
         CHR ''/'' \<notin> set c
         \<and> (\<exists>r. nextRandom w = Some r
              \<and> k = joinPath (tempDir w) (c @ ''-kubeconfig-'') @ r
              \<and> (tempDir w \<noteq> [] \<and> last (tempDir w) \<noteq> CHR ''/'' \<and> CHR ''/'' \<notin> set r \<longrightarrow>
                   dirOf k = tempDir w)))
   \<and> (\<forall>f b. WriteFile f b \<in> set (fst (main icsp cat w arguments)) \<longrightarrow>
         (\<exists>flags c. flagParse definedFlags Map.empty arguments = Inr flags
            \<and> getClusterName (flagString flags ''url'' []) = Inr c
            \<and> (f = c @ ''-pull-secret.json'' \<or> f = c @ ''-new-pull-secret.json''
               \<or> f = c @ ''-icsp.yaml'' \<or> f = c @ ''-catalogsource.yaml''))
         \<and> CHR ''/'' \<notin> set f \<and> resolve w f = joinPath (workDir w) f)
   \<and> (\<forall>p f k. registryLoginCmd p f k \<in> set (fst (main icsp cat w arguments)) \<longrightarrow>
         (\<exists>flags c. flagParse definedFlags Map.empty arguments = Inr flags
            \<and> getClusterName (flagString flags ''url'' []) = Inr c
            \<and> f = c @ ''-append-pull-secret.json'')
         \<and> CHR ''/'' \<notin> set f)"
proof (intro conjI allI impI)
  fix d pat
  assume "CreateTemp d pat \<in> set (fst (main icsp cat w arguments))"
  from main_create_temp [OF this]
  show "d = []" and "\<exists>flags c. flagParse definedFlags Map.empty arguments = Inr flags
            \<and> getClusterName (flagString flags ''url'' []) = Inr c
            \<and> pat = c @ ''-kubeconfig-*''"
    by simp_all
next
  fix c k
  assume g: "snd (getKubeconfig w c) = Inr k"
  from getKubeconfig_ok [OF g] obtain r where
    c: "CHR ''/'' \<notin> set c" and r: "nextRandom w = Some r"
    and k: "k = joinPath (tempDir w) (c @ ''-kubeconfig-'') @ r"
    by (elim conjE exE)
  show "CHR ''/'' \<notin> set c" by (rule c)
  have "dirOf k = tempDir w"
    if "tempDir w \<noteq> [] \<and> last (tempDir w) \<noteq> CHR ''/'' \<and> CHR ''/'' \<notin> set r"
  proof -
    have "k = joinPath (tempDir w) (c @ ''-kubeconfig-'' @ r)"
      unfolding k by (simp add: joinPath_def)
    moreover have "CHR ''/'' \<notin> set (c @ ''-kubeconfig-'' @ r)"
      using c that by simp
    ultimately show ?thesis
      using dirOf_joinPath [of "tempDir w" "c @ ''-kubeconfig-'' @ r"] that by simp
  qed
  with r k show "\<exists>r. nextRandom w = Some r
                 \<and> k = joinPath (tempDir w) (c @ ''-kubeconfig-'') @ r
                 \<and> (tempDir w \<noteq> [] \<and> last (tempDir w) \<noteq> CHR ''/'' \<and> CHR ''/'' \<notin> set r \<longrightarrow>
                      dirOf k = tempDir w)"
    by simp
next
  fix f b
  assume "WriteFile f b \<in> set (fst (main icsp cat w arguments))"
  from main_writes [OF this] obtain flags c k where
    p: "flagParse definedFlags Map.empty arguments = Inr flags"
    and c: "getClusterName (flagString flags ''url'' []) = Inr c"
    and k: "snd (getKubeconfig w c) = Inr k"
    and f: "f = c @ ''-pull-secret.json'' \<or> f = c @ ''-new-pull-secret.json''
              \<or> f = c @ ''-icsp.yaml'' \<or> f = c @ ''-catalogsource.yaml''"
    by (elim conjE exE)
  from p c f show "\<exists>flags c. flagParse definedFlags Map.empty arguments = Inr flags
            \<and> getClusterName (flagString flags ''url'' []) = Inr c
            \<and> (f = c @ ''-pull-secret.json'' \<or> f = c @ ''-new-pull-secret.json''
               \<or> f = c @ ''-icsp.yaml'' \<or> f = c @ ''-catalogsource.yaml'')"
    by (intro exI [of _ flags] exI [of _ c]) simp
  from getKubeconfig_ok [OF k] have "CHR ''/'' \<notin> set c"
    by simp
  with f show nf: "CHR ''/'' \<notin> set f"
    by (elim disjE) simp_all
  then have "f = [] \<or> hd f \<noteq> CHR ''/''"
    by (cases f) auto
  then show "resolve w f = joinPath (workDir w) f"
    by (elim disjE) (simp_all add: resolve_def)
next
  fix p f k
  assume "registryLoginCmd p f k \<in> set (fst (main icsp cat w arguments))"
  from main_registry_login [OF this] obtain flags c k' where
    p: "flagParse definedFlags Map.empty arguments = Inr flags"
    and c: "getClusterName (flagString flags ''url'' []) = Inr c"
    and k: "snd (getKubeconfig w c) = Inr k'"
    and f: "f = c @ ''-append-pull-secret.json''"
    by (elim conjE exE)
  from p c f show "\<exists>flags c. flagParse definedFlags Map.empty arguments = Inr flags
            \<and> getClusterName (flagString flags ''url'' []) = Inr c
            \<and> f = c @ ''-append-pull-secret.json''"
    by (intro exI [of _ flags] exI [of _ c]) simp
  from getKubeconfig_ok [OF k] have "CHR ''/'' \<notin> set c"
    by simp
  with f show "CHR ''/'' \<notin> set f"
    by simp
qed

theorem scratch_files_witness:
  "flagParse definedFlags Map.empty argsA = Inr flagsA
   \<and> ''api.cluster.example.com:6443'' = flagString flagsA ''url'' []
   \<and> getClusterName ''api.cluster.example.com:6443'' = Inr ''cluster''
   \<and> snd (getKubeconfig worldA ''cluster'') = Inr ''/tmp/cluster-kubeconfig-123''
   \<and> nextRandom worldA = Some ''123''
   \<and> tempDir worldA = ''/tmp'' \<and> last (tempDir worldA) \<noteq> CHR ''/'' \<and> CHR ''/'' \<notin> set ''123''
   \<and> ''/tmp/cluster-kubeconfig-123''
       = joinPath (tempDir worldA) (''cluster'' @ ''-kubeconfig-'') @ ''123''
   \<and> dirOf ''/tmp/cluster-kubeconfig-123'' = tempDir worldA
   \<and> CreateTemp [] ''cluster-kubeconfig-*'' \<in> set (fst (main icspA catalogSourceA worldA argsA))
   \<and> WriteFile ''cluster-icsp.yaml'' icspA \<in> set (fst (main icspA catalogSourceA worldA argsA))
   \<and> CHR ''/'' \<notin> set ''cluster-icsp.yaml''
   \<and> resolve worldA ''cluster-icsp.yaml'' = joinPath (workDir worldA) ''cluster-icsp.yaml''
   \<and> registryLoginCmd ''xyz'' ''cluster-append-pull-secret.json'' ''/tmp/cluster-kubeconfig-123''
       \<in> set (fst (main icspA catalogSourceA worldA argsA))"
proof -
  let ?url = "''api.cluster.example.com:6443''" and ?k = "''/tmp/cluster-kubeconfig-123''"
  note f = flagsA_flags [symmetric]
  have c: "checkRequiredCommands worldA = ([LookPath ''jq'', LookPath ''oc''], None)"
    by (rule commands_found) (simp_all add: worldA_def)
  have k: "getKubeconfig worldA ''cluster''
       = ([CreateTemp [] ''cluster-kubeconfig-*''], Inr ?k)"
    by (rule kubeconfig_created) (simp_all add: worldA_def)
  have w: "nextRandom worldA = Some ''123''" "tempDir worldA = ''/tmp''"
    by (simp_all add: worldA_def)
  have l: "snd (login worldA ?url ''kubeadmin'' ''abc'' ?k) = None"
    by (simp add: login_def worldA_def)
  have m: "snd (addRHCEPHAuth worldA ''cluster'' ?k ''xyz'') = None"
    and r: "registryLoginCmd ''xyz'' ''cluster-append-pull-secret.json'' ?k
       \<in> set (fst (addRHCEPHAuth worldA ''cluster'' ?k ''xyz''))"
    by (simp_all add: run_simps docOne_def)
  have i: "snd (addICSP icspA worldA ''cluster'' ?k) = None"
    and wi: "WriteFile ''cluster-icsp.yaml'' icspA \<in> set (fst (addICSP icspA worldA ''cluster'' ?k))"
    by (simp_all add: addICSP_def Let_def worldA_def)
  from main_in_order(2) [OF flagParse_argsA flagsA_flags(1) _ flagsA_flags(2) flagsA_flags(3) _
      flagsA_flags(4) _ c cluster_name k refl, where icsp = icspA and cat = catalogSourceA]
  obtain tail where tr: "fst (main icspA catalogSourceA worldA argsA)
      = [LookPath ''jq'', LookPath ''oc''] @ [CreateTemp [] ''cluster-kubeconfig-*'']
        @ fst (inOrder [login worldA ?url ''kubeadmin'' ''abc'' ?k,
            addRHCEPHAuth worldA ''cluster'' ?k ''xyz'', addICSP icspA worldA ''cluster'' ?k,
            addCatalogSource worldA ''cluster'' ?k catalogSourceA]) @ tail"
    by auto
  have ct: "CreateTemp [] ''cluster-kubeconfig-*''
      \<in> set (fst (main icspA catalogSourceA worldA argsA))"
    unfolding tr by simp
  have wf: "WriteFile ''cluster-icsp.yaml'' icspA
      \<in> set (fst (main icspA catalogSourceA worldA argsA))"
    unfolding tr using wi by (simp add: inOrder_Cons l m i)
  have rl: "registryLoginCmd ''xyz'' ''cluster-append-pull-secret.json'' ?k
      \<in> set (fst (main icspA catalogSourceA worldA argsA))"
    unfolding tr using r by (simp add: inOrder_Cons l m)
  have ks: "snd (getKubeconfig worldA ''cluster'') = Inr ?k"
    unfolding k by simp
  from scratch_files [where icsp = icspA and cat = catalogSourceA and w = worldA
      and arguments = argsA, THEN conjunct2, THEN conjunct1, rule_format, OF ks] w
  have d: "dirOf ?k = tempDir worldA"
    and j: "?k = joinPath (tempDir worldA) (''cluster'' @ ''-kubeconfig-'') @ ''123''"
    by simp_all
  from scratch_files [where icsp = icspA and cat = catalogSourceA and w = worldA
      and arguments = argsA, THEN conjunct2, THEN conjunct2, THEN conjunct1, rule_format, OF wf]
  have rs: "resolve worldA ''cluster-icsp.yaml'' = joinPath (workDir worldA) ''cluster-icsp.yaml''"
    by simp
  have sl: "last (tempDir worldA) \<noteq> CHR ''/''" "CHR ''/'' \<notin> set ''123''"
    "CHR ''/'' \<notin> set ''cluster-icsp.yaml''"
    by (simp_all add: worldA_def)
  show ?thesis
    by (intro conjI flagParse_argsA f(1) cluster_name ks w sl j d ct wf rs rl)
qed

end
